theory Spec2Isabelle
  imports Complex_Main "HOL-Library.Word"
begin

section \<open>SDL display driver of TinyEMU: scancode table\<close>

text \<open>
  The table \<open>keymap\<close> (\<open>unsigned short keymap[NR_KEYS]\<close>) is written with designated
  initialisers \<open>[SDL_SCANCODE_x] = KEY_y\<close>.  The numeric values of the SDL scancodes, of
  the Linux key codes and of \<open>NR_KEYS\<close> come from headers that are not part of the
  sources at hand, so they are parameters: \<open>sc\<close> gives the value of a scancode name,
  \<open>key\<close> the value of a key-code name, \<open>n\<close> is \<open>NR_KEYS\<close>.  The designators are
  transcribed in source order.
\<close>

definition keymap_init :: "(string \<times> string) list" where
  "keymap_init =
    [
     (''SDL_SCANCODE_UNKNOWN'', ''KEY_RESERVED''),
     (''SDL_SCANCODE_A'', ''KEY_A''),
     (''SDL_SCANCODE_B'', ''KEY_B''),
     (''SDL_SCANCODE_C'', ''KEY_C''),
     (''SDL_SCANCODE_D'', ''KEY_D''),
     (''SDL_SCANCODE_E'', ''KEY_E''),
     (''SDL_SCANCODE_F'', ''KEY_F''),
     (''SDL_SCANCODE_G'', ''KEY_G''),
     (''SDL_SCANCODE_H'', ''KEY_H''),
     (''SDL_SCANCODE_I'', ''KEY_I''),
     (''SDL_SCANCODE_J'', ''KEY_J''),
     (''SDL_SCANCODE_K'', ''KEY_K''),
     (''SDL_SCANCODE_L'', ''KEY_L''),
     (''SDL_SCANCODE_M'', ''KEY_M''),
     (''SDL_SCANCODE_N'', ''KEY_N''),
     (''SDL_SCANCODE_O'', ''KEY_O''),
     (''SDL_SCANCODE_P'', ''KEY_P''),
     (''SDL_SCANCODE_Q'', ''KEY_Q''),
     (''SDL_SCANCODE_R'', ''KEY_R''),
     (''SDL_SCANCODE_S'', ''KEY_S''),
     (''SDL_SCANCODE_T'', ''KEY_T''),
     (''SDL_SCANCODE_U'', ''KEY_U''),
     (''SDL_SCANCODE_V'', ''KEY_V''),
     (''SDL_SCANCODE_W'', ''KEY_W''),
     (''SDL_SCANCODE_X'', ''KEY_X''),
     (''SDL_SCANCODE_Y'', ''KEY_Y''),
     (''SDL_SCANCODE_Z'', ''KEY_Z''),
     (''SDL_SCANCODE_1'', ''KEY_1''),
     (''SDL_SCANCODE_2'', ''KEY_2''),
     (''SDL_SCANCODE_3'', ''KEY_3''),
     (''SDL_SCANCODE_4'', ''KEY_4''),
     (''SDL_SCANCODE_5'', ''KEY_5''),
     (''SDL_SCANCODE_6'', ''KEY_6''),
     (''SDL_SCANCODE_7'', ''KEY_7''),
     (''SDL_SCANCODE_8'', ''KEY_8''),
     (''SDL_SCANCODE_9'', ''KEY_9''),
     (''SDL_SCANCODE_0'', ''KEY_0''),
     (''SDL_SCANCODE_RETURN'', ''KEY_ENTER''),
     (''SDL_SCANCODE_ESCAPE'', ''KEY_ESC''),
     (''SDL_SCANCODE_BACKSPACE'', ''KEY_BACKSPACE''),
     (''SDL_SCANCODE_TAB'', ''KEY_TAB''),
     (''SDL_SCANCODE_SPACE'', ''KEY_SPACE''),
     (''SDL_SCANCODE_MINUS'', ''KEY_MINUS''),
     (''SDL_SCANCODE_EQUALS'', ''KEY_EQUAL''),
     (''SDL_SCANCODE_LEFTBRACKET'', ''KEY_LEFTBRACE''),
     (''SDL_SCANCODE_RIGHTBRACKET'', ''KEY_RIGHTBRACE''),
     (''SDL_SCANCODE_BACKSLASH'', ''KEY_BACKSLASH''),
     (''SDL_SCANCODE_NONUSHASH'', ''KEY_BACKSLASH''),
     (''SDL_SCANCODE_SEMICOLON'', ''KEY_SEMICOLON''),
     (''SDL_SCANCODE_APOSTROPHE'', ''KEY_APOSTROPHE''),
     (''SDL_SCANCODE_GRAVE'', ''KEY_GRAVE''),
     (''SDL_SCANCODE_COMMA'', ''KEY_COMMA''),
     (''SDL_SCANCODE_PERIOD'', ''KEY_DOT''),
     (''SDL_SCANCODE_SLASH'', ''KEY_SLASH''),
     (''SDL_SCANCODE_CAPSLOCK'', ''KEY_CAPSLOCK''),
     (''SDL_SCANCODE_F1'', ''KEY_F1''),
     (''SDL_SCANCODE_F2'', ''KEY_F2''),
     (''SDL_SCANCODE_F3'', ''KEY_F3''),
     (''SDL_SCANCODE_F4'', ''KEY_F4''),
     (''SDL_SCANCODE_F5'', ''KEY_F5''),
     (''SDL_SCANCODE_F6'', ''KEY_F6''),
     (''SDL_SCANCODE_F7'', ''KEY_F7''),
     (''SDL_SCANCODE_F8'', ''KEY_F8''),
     (''SDL_SCANCODE_F9'', ''KEY_F9''),
     (''SDL_SCANCODE_F10'', ''KEY_F10''),
     (''SDL_SCANCODE_F11'', ''KEY_F11''),
     (''SDL_SCANCODE_F12'', ''KEY_F12''),
     (''SDL_SCANCODE_PRINTSCREEN'', ''KEY_PRINT''),
     (''SDL_SCANCODE_SCROLLLOCK'', ''KEY_SCROLLLOCK''),
     (''SDL_SCANCODE_PAUSE'', ''KEY_PAUSE''),
     (''SDL_SCANCODE_INSERT'', ''KEY_INSERT''),
     (''SDL_SCANCODE_HOME'', ''KEY_HOME''),
     (''SDL_SCANCODE_PAGEUP'', ''KEY_PAGEUP''),
     (''SDL_SCANCODE_DELETE'', ''KEY_DELETE''),
     (''SDL_SCANCODE_END'', ''KEY_END''),
     (''SDL_SCANCODE_PAGEDOWN'', ''KEY_PAGEDOWN''),
     (''SDL_SCANCODE_RIGHT'', ''KEY_RIGHT''),
     (''SDL_SCANCODE_LEFT'', ''KEY_LEFT''),
     (''SDL_SCANCODE_DOWN'', ''KEY_DOWN''),
     (''SDL_SCANCODE_UP'', ''KEY_UP''),
     (''SDL_SCANCODE_NUMLOCKCLEAR'', ''KEY_NUMLOCK''),
     (''SDL_SCANCODE_KP_DIVIDE'', ''KEY_KPSLASH''),
     (''SDL_SCANCODE_KP_MULTIPLY'', ''KEY_KPASTERISK''),
     (''SDL_SCANCODE_KP_MINUS'', ''KEY_KPMINUS''),
     (''SDL_SCANCODE_KP_PLUS'', ''KEY_KPPLUS''),
     (''SDL_SCANCODE_KP_ENTER'', ''KEY_KPENTER''),
     (''SDL_SCANCODE_KP_1'', ''KEY_KP1''),
     (''SDL_SCANCODE_KP_2'', ''KEY_KP2''),
     (''SDL_SCANCODE_KP_3'', ''KEY_KP3''),
     (''SDL_SCANCODE_KP_4'', ''KEY_KP4''),
     (''SDL_SCANCODE_KP_5'', ''KEY_KP5''),
     (''SDL_SCANCODE_KP_6'', ''KEY_KP6''),
     (''SDL_SCANCODE_KP_7'', ''KEY_KP7''),
     (''SDL_SCANCODE_KP_8'', ''KEY_KP8''),
     (''SDL_SCANCODE_KP_9'', ''KEY_KP9''),
     (''SDL_SCANCODE_KP_0'', ''KEY_KP0''),
     (''SDL_SCANCODE_KP_PERIOD'', ''KEY_KPDOT''),
     (''SDL_SCANCODE_NONUSBACKSLASH'', ''KEY_BACKSLASH''),
     (''SDL_SCANCODE_POWER'', ''KEY_POWER''),
     (''SDL_SCANCODE_KP_EQUALS'', ''KEY_KPEQUAL''),
     (''SDL_SCANCODE_F13'', ''KEY_F13''),
     (''SDL_SCANCODE_F14'', ''KEY_F14''),
     (''SDL_SCANCODE_F15'', ''KEY_F15''),
     (''SDL_SCANCODE_F16'', ''KEY_F16''),
     (''SDL_SCANCODE_F17'', ''KEY_F17''),
     (''SDL_SCANCODE_F18'', ''KEY_F18''),
     (''SDL_SCANCODE_F19'', ''KEY_F19''),
     (''SDL_SCANCODE_F20'', ''KEY_F20''),
     (''SDL_SCANCODE_F21'', ''KEY_F21''),
     (''SDL_SCANCODE_F22'', ''KEY_F22''),
     (''SDL_SCANCODE_F23'', ''KEY_F23''),
     (''SDL_SCANCODE_F24'', ''KEY_F24''),
     (''SDL_SCANCODE_HELP'', ''KEY_HELP''),
     (''SDL_SCANCODE_MENU'', ''KEY_MENU''),
     (''SDL_SCANCODE_SELECT'', ''KEY_SELECT''),
     (''SDL_SCANCODE_STOP'', ''KEY_STOP''),
     (''SDL_SCANCODE_AGAIN'', ''KEY_AGAIN''),
     (''SDL_SCANCODE_UNDO'', ''KEY_UNDO''),
     (''SDL_SCANCODE_CUT'', ''KEY_CUT''),
     (''SDL_SCANCODE_COPY'', ''KEY_COPY''),
     (''SDL_SCANCODE_PASTE'', ''KEY_PASTE''),
     (''SDL_SCANCODE_FIND'', ''KEY_FIND''),
     (''SDL_SCANCODE_MUTE'', ''KEY_MUTE''),
     (''SDL_SCANCODE_VOLUMEUP'', ''KEY_VOLUMEUP''),
     (''SDL_SCANCODE_VOLUMEDOWN'', ''KEY_VOLUMEDOWN''),
     (''SDL_SCANCODE_KP_COMMA'', ''KEY_KPCOMMA''),
     (''SDL_SCANCODE_KP_EQUALSAS400'', ''KEY_KPEQUAL''),
     (''SDL_SCANCODE_ALTERASE'', ''KEY_ALTERASE''),
     (''SDL_SCANCODE_SYSREQ'', ''KEY_SYSRQ''),
     (''SDL_SCANCODE_CANCEL'', ''KEY_CANCEL''),
     (''SDL_SCANCODE_CLEAR'', ''KEY_CLEAR''),
     (''SDL_SCANCODE_RETURN2'', ''KEY_ENTER''),
     (''SDL_SCANCODE_LCTRL'', ''KEY_LEFTCTRL''),
     (''SDL_SCANCODE_LSHIFT'', ''KEY_LEFTSHIFT''),
     (''SDL_SCANCODE_LALT'', ''KEY_LEFTALT''),
     (''SDL_SCANCODE_LGUI'', ''KEY_LEFTMETA''),
     (''SDL_SCANCODE_RCTRL'', ''KEY_RIGHTCTRL''),
     (''SDL_SCANCODE_RSHIFT'', ''KEY_RIGHTSHIFT''),
     (''SDL_SCANCODE_RALT'', ''KEY_RIGHTALT'')
    ]"

text \<open>
  C semantics of the initialiser: element \<open>i\<close> holds the value of the last designator
  whose index is \<open>i\<close>, converted to \<open>unsigned short\<close>; elements without a designator
  are zero.
\<close>

definition keymap_entry :: "(string \<Rightarrow> nat) \<Rightarrow> (string \<Rightarrow> int) \<Rightarrow> nat \<Rightarrow> 16 word" where
  "keymap_entry sc key i =
     (case filter (\<lambda>d. sc (fst d) = i) keymap_init of
        [] \<Rightarrow> 0
      | d # ds \<Rightarrow> word_of_int (key (snd (last (d # ds)))))"

definition keymap :: "nat \<Rightarrow> (string \<Rightarrow> nat) \<Rightarrow> (string \<Rightarrow> int) \<Rightarrow> 16 word list" where
  "keymap n sc key = map (keymap_entry sc key) [0..<n]"

section \<open>Scancode translation\<close>

text \<open>
  Every function below takes the table \<open>km\<close> as it is in memory; \<open>NR_KEYS\<close> is its
  number of elements.  A read outside the array is the value \<open>None\<close>.
\<close>

definition NR_KEYS :: "16 word list \<Rightarrow> int" where
  "NR_KEYS km = int (length km)"

definition keymap_at :: "16 word list \<Rightarrow> int \<Rightarrow> int option" where
  "keymap_at km i = (if 0 \<le> i \<and> i < int (length km) then Some (uint (km ! nat i)) else None)"

text \<open>
  \<open>sdl_get_keycode\<close>, the variant compiled when \<open>_WIN32\<close> is not defined.  The
  scancode is held in a C \<open>int\<close> and compared with \<open>NR_KEYS\<close> as a signed number.
\<close>

definition sdl_get_keycode :: "16 word list \<Rightarrow> int \<Rightarrow> int option" where
  "sdl_get_keycode km scancode =
     (if scancode < NR_KEYS km then keymap_at km scancode else Some 0)"

section \<open>Calls made to the machine and to SDL\<close>

datatype sdl_event_type =
    SDL_KEYDOWN | SDL_KEYUP | SDL_MOUSEMOTION | SDL_MOUSEBUTTONDOWN | SDL_MOUSEBUTTONUP
  | SDL_MOUSEWHEEL | SDL_QUIT | SDL_OTHEREVENT nat

record SDL_KeyboardEvent =
  kev_type :: sdl_event_type
  kev_scancode :: int

text \<open>
  What the driver sends to the machine: \<open>vm_send_key_event(m, is_down, keycode)\<close> and
  \<open>vm_send_mouse_event(m, x, y, dz, buttons)\<close>.
\<close>

datatype guest_event =
    vm_send_key_event bool int
  | vm_send_mouse_event int int int int

section \<open>Keyboard handling\<close>

text \<open>
  \<open>sdl_reset_keys\<close>: the loop \<open>for (i = 1; i < NR_KEYS; i++)\<close> over
  \<open>key_pressed[NR_KEYS]\<close>, from index \<open>i\<close> on.  It returns the events sent to the
  machine, first one first, and the array as it is left.
\<close>

function sdl_reset_keys_loop :: "nat \<Rightarrow> nat \<Rightarrow> bool list \<Rightarrow> guest_event list \<times> bool list" where
  "sdl_reset_keys_loop n i kp =
     (if i < n then
        (if kp ! i then
           (let r = sdl_reset_keys_loop n (i + 1) (kp[i := False])
            in (vm_send_key_event False (int i) # fst r, snd r))
         else sdl_reset_keys_loop n (i + 1) kp)
      else ([], kp))"
  by pat_completeness auto
termination
  by (relation "measure (\<lambda>(n, i, kp). n - i)") auto

definition sdl_reset_keys :: "16 word list \<Rightarrow> bool list \<Rightarrow> guest_event list \<times> bool list" where
  "sdl_reset_keys km kp = sdl_reset_keys_loop (nat (NR_KEYS km)) 1 kp"

definition sdl_handle_key_event ::
  "16 word list \<Rightarrow> SDL_KeyboardEvent \<Rightarrow> bool list \<Rightarrow> (guest_event list \<times> bool list) option" where
  "sdl_handle_key_event km ev kp =
     (case sdl_get_keycode km (kev_scancode ev) of
        None \<Rightarrow> None
      | Some keycode \<Rightarrow>
          Some
           (if keycode \<noteq> 0 then
              (if keycode = 0x3a \<or> keycode = 0x45 then
                 ([vm_send_key_event True keycode, vm_send_key_event False keycode], kp)
               else
                 (let keypress = (kev_type ev = SDL_KEYDOWN)
                  in ([vm_send_key_event keypress keycode],
                      if keycode < NR_KEYS km then kp[nat keycode := keypress] else kp)))
            else if kev_type ev = SDL_KEYUP then sdl_reset_keys km kp
            else ([], kp)))"

text \<open>A sequence of keyboard events, handled one after the other.\<close>

fun sdl_handle_key_events ::
  "16 word list \<Rightarrow> SDL_KeyboardEvent list \<Rightarrow> bool list \<Rightarrow> (guest_event list \<times> bool list) option" where
  "sdl_handle_key_events km [] kp = Some ([], kp)"
| "sdl_handle_key_events km (ev # evs) kp =
     (case sdl_handle_key_event km ev kp of
        None \<Rightarrow> None
      | Some (out, kp') \<Rightarrow>
          (case sdl_handle_key_events km evs kp' of
             None \<Rightarrow> None
           | Some (out', kp'') \<Rightarrow> Some (out @ out', kp'')))"

text \<open>\<open>static uint8_t key_pressed[NR_KEYS]\<close> starts zeroed.\<close>

definition key_pressed_init :: "16 word list \<Rightarrow> bool list" where
  "key_pressed_init km = replicate (nat (NR_KEYS km)) False"


section \<open>An instance of the parameters\<close>

text \<open>
  The values that SDL 2 gives to the scancodes used in the table and that Linux gives to
  the key codes, as one instance of the parameters \<open>sc\<close> and \<open>key\<close>.
\<close>

definition sdl2_scancodes :: "(string \<times> nat) list" where
  "sdl2_scancodes =
    [
     (''SDL_SCANCODE_UNKNOWN'', 0), (''SDL_SCANCODE_A'', 4), (''SDL_SCANCODE_B'', 5),
     (''SDL_SCANCODE_C'', 6), (''SDL_SCANCODE_D'', 7), (''SDL_SCANCODE_E'', 8),
     (''SDL_SCANCODE_F'', 9), (''SDL_SCANCODE_G'', 10), (''SDL_SCANCODE_H'', 11),
     (''SDL_SCANCODE_I'', 12), (''SDL_SCANCODE_J'', 13), (''SDL_SCANCODE_K'', 14),
     (''SDL_SCANCODE_L'', 15), (''SDL_SCANCODE_M'', 16), (''SDL_SCANCODE_N'', 17),
     (''SDL_SCANCODE_O'', 18), (''SDL_SCANCODE_P'', 19), (''SDL_SCANCODE_Q'', 20),
     (''SDL_SCANCODE_R'', 21), (''SDL_SCANCODE_S'', 22), (''SDL_SCANCODE_T'', 23),
     (''SDL_SCANCODE_U'', 24), (''SDL_SCANCODE_V'', 25), (''SDL_SCANCODE_W'', 26),
     (''SDL_SCANCODE_X'', 27), (''SDL_SCANCODE_Y'', 28), (''SDL_SCANCODE_Z'', 29),
     (''SDL_SCANCODE_1'', 30), (''SDL_SCANCODE_2'', 31), (''SDL_SCANCODE_3'', 32),
     (''SDL_SCANCODE_4'', 33), (''SDL_SCANCODE_5'', 34), (''SDL_SCANCODE_6'', 35),
     (''SDL_SCANCODE_7'', 36), (''SDL_SCANCODE_8'', 37), (''SDL_SCANCODE_9'', 38),
     (''SDL_SCANCODE_0'', 39), (''SDL_SCANCODE_RETURN'', 40), (''SDL_SCANCODE_ESCAPE'', 41),
     (''SDL_SCANCODE_BACKSPACE'', 42), (''SDL_SCANCODE_TAB'', 43),
     (''SDL_SCANCODE_SPACE'', 44), (''SDL_SCANCODE_MINUS'', 45), (''SDL_SCANCODE_EQUALS'', 46),
     (''SDL_SCANCODE_LEFTBRACKET'', 47), (''SDL_SCANCODE_RIGHTBRACKET'', 48),
     (''SDL_SCANCODE_BACKSLASH'', 49), (''SDL_SCANCODE_NONUSHASH'', 50),
     (''SDL_SCANCODE_SEMICOLON'', 51), (''SDL_SCANCODE_APOSTROPHE'', 52),
     (''SDL_SCANCODE_GRAVE'', 53), (''SDL_SCANCODE_COMMA'', 54), (''SDL_SCANCODE_PERIOD'', 55),
     (''SDL_SCANCODE_SLASH'', 56), (''SDL_SCANCODE_CAPSLOCK'', 57), (''SDL_SCANCODE_F1'', 58),
     (''SDL_SCANCODE_F2'', 59), (''SDL_SCANCODE_F3'', 60), (''SDL_SCANCODE_F4'', 61),
     (''SDL_SCANCODE_F5'', 62), (''SDL_SCANCODE_F6'', 63), (''SDL_SCANCODE_F7'', 64),
     (''SDL_SCANCODE_F8'', 65), (''SDL_SCANCODE_F9'', 66), (''SDL_SCANCODE_F10'', 67),
     (''SDL_SCANCODE_F11'', 68), (''SDL_SCANCODE_F12'', 69),
     (''SDL_SCANCODE_PRINTSCREEN'', 70), (''SDL_SCANCODE_SCROLLLOCK'', 71),
     (''SDL_SCANCODE_PAUSE'', 72), (''SDL_SCANCODE_INSERT'', 73), (''SDL_SCANCODE_HOME'', 74),
     (''SDL_SCANCODE_PAGEUP'', 75), (''SDL_SCANCODE_DELETE'', 76), (''SDL_SCANCODE_END'', 77),
     (''SDL_SCANCODE_PAGEDOWN'', 78), (''SDL_SCANCODE_RIGHT'', 79),
     (''SDL_SCANCODE_LEFT'', 80), (''SDL_SCANCODE_DOWN'', 81), (''SDL_SCANCODE_UP'', 82),
     (''SDL_SCANCODE_NUMLOCKCLEAR'', 83), (''SDL_SCANCODE_KP_DIVIDE'', 84),
     (''SDL_SCANCODE_KP_MULTIPLY'', 85), (''SDL_SCANCODE_KP_MINUS'', 86),
     (''SDL_SCANCODE_KP_PLUS'', 87), (''SDL_SCANCODE_KP_ENTER'', 88),
     (''SDL_SCANCODE_KP_1'', 89), (''SDL_SCANCODE_KP_2'', 90), (''SDL_SCANCODE_KP_3'', 91),
     (''SDL_SCANCODE_KP_4'', 92), (''SDL_SCANCODE_KP_5'', 93), (''SDL_SCANCODE_KP_6'', 94),
     (''SDL_SCANCODE_KP_7'', 95), (''SDL_SCANCODE_KP_8'', 96), (''SDL_SCANCODE_KP_9'', 97),
     (''SDL_SCANCODE_KP_0'', 98), (''SDL_SCANCODE_KP_PERIOD'', 99),
     (''SDL_SCANCODE_NONUSBACKSLASH'', 100), (''SDL_SCANCODE_POWER'', 102),
     (''SDL_SCANCODE_KP_EQUALS'', 103), (''SDL_SCANCODE_F13'', 104),
     (''SDL_SCANCODE_F14'', 105), (''SDL_SCANCODE_F15'', 106), (''SDL_SCANCODE_F16'', 107),
     (''SDL_SCANCODE_F17'', 108), (''SDL_SCANCODE_F18'', 109), (''SDL_SCANCODE_F19'', 110),
     (''SDL_SCANCODE_F20'', 111), (''SDL_SCANCODE_F21'', 112), (''SDL_SCANCODE_F22'', 113),
     (''SDL_SCANCODE_F23'', 114), (''SDL_SCANCODE_F24'', 115), (''SDL_SCANCODE_HELP'', 117),
     (''SDL_SCANCODE_MENU'', 118), (''SDL_SCANCODE_SELECT'', 119),
     (''SDL_SCANCODE_STOP'', 120), (''SDL_SCANCODE_AGAIN'', 121), (''SDL_SCANCODE_UNDO'', 122),
     (''SDL_SCANCODE_CUT'', 123), (''SDL_SCANCODE_COPY'', 124), (''SDL_SCANCODE_PASTE'', 125),
     (''SDL_SCANCODE_FIND'', 126), (''SDL_SCANCODE_MUTE'', 127),
     (''SDL_SCANCODE_VOLUMEUP'', 128), (''SDL_SCANCODE_VOLUMEDOWN'', 129),
     (''SDL_SCANCODE_KP_COMMA'', 133), (''SDL_SCANCODE_KP_EQUALSAS400'', 134),
     (''SDL_SCANCODE_ALTERASE'', 153), (''SDL_SCANCODE_SYSREQ'', 154),
     (''SDL_SCANCODE_CANCEL'', 155), (''SDL_SCANCODE_CLEAR'', 156),
     (''SDL_SCANCODE_RETURN2'', 158), (''SDL_SCANCODE_LCTRL'', 224),
     (''SDL_SCANCODE_LSHIFT'', 225), (''SDL_SCANCODE_LALT'', 226),
     (''SDL_SCANCODE_LGUI'', 227), (''SDL_SCANCODE_RCTRL'', 228),
     (''SDL_SCANCODE_RSHIFT'', 229), (''SDL_SCANCODE_RALT'', 230)
    ]"

definition sdl2_scancode :: "string \<Rightarrow> nat" where
  "sdl2_scancode name = (case map_of sdl2_scancodes name of Some v \<Rightarrow> v | None \<Rightarrow> 0)"

definition linux_key_codes :: "(string \<times> int) list" where
  "linux_key_codes =
    [
     (''KEY_RESERVED'', 0), (''KEY_A'', 30), (''KEY_B'', 48), (''KEY_C'', 46), (''KEY_D'', 32),
     (''KEY_E'', 18), (''KEY_F'', 33), (''KEY_G'', 34), (''KEY_H'', 35), (''KEY_I'', 23),
     (''KEY_J'', 36), (''KEY_K'', 37), (''KEY_L'', 38), (''KEY_M'', 50), (''KEY_N'', 49),
     (''KEY_O'', 24), (''KEY_P'', 25), (''KEY_Q'', 16), (''KEY_R'', 19), (''KEY_S'', 31),
     (''KEY_T'', 20), (''KEY_U'', 22), (''KEY_V'', 47), (''KEY_W'', 17), (''KEY_X'', 45),
     (''KEY_Y'', 21), (''KEY_Z'', 44), (''KEY_1'', 2), (''KEY_2'', 3), (''KEY_3'', 4),
     (''KEY_4'', 5), (''KEY_5'', 6), (''KEY_6'', 7), (''KEY_7'', 8), (''KEY_8'', 9),
     (''KEY_9'', 10), (''KEY_0'', 11), (''KEY_ENTER'', 28), (''KEY_ESC'', 1),
     (''KEY_BACKSPACE'', 14), (''KEY_TAB'', 15), (''KEY_SPACE'', 57), (''KEY_MINUS'', 12),
     (''KEY_EQUAL'', 13), (''KEY_LEFTBRACE'', 26), (''KEY_RIGHTBRACE'', 27),
     (''KEY_BACKSLASH'', 43), (''KEY_SEMICOLON'', 39), (''KEY_APOSTROPHE'', 40),
     (''KEY_GRAVE'', 41), (''KEY_COMMA'', 51), (''KEY_DOT'', 52), (''KEY_SLASH'', 53),
     (''KEY_CAPSLOCK'', 58), (''KEY_F1'', 59), (''KEY_F2'', 60), (''KEY_F3'', 61),
     (''KEY_F4'', 62), (''KEY_F5'', 63), (''KEY_F6'', 64), (''KEY_F7'', 65), (''KEY_F8'', 66),
     (''KEY_F9'', 67), (''KEY_F10'', 68), (''KEY_F11'', 87), (''KEY_F12'', 88),
     (''KEY_PRINT'', 210), (''KEY_SCROLLLOCK'', 70), (''KEY_PAUSE'', 119),
     (''KEY_INSERT'', 110), (''KEY_HOME'', 102), (''KEY_PAGEUP'', 104), (''KEY_DELETE'', 111),
     (''KEY_END'', 107), (''KEY_PAGEDOWN'', 109), (''KEY_RIGHT'', 106), (''KEY_LEFT'', 105),
     (''KEY_DOWN'', 108), (''KEY_UP'', 103), (''KEY_NUMLOCK'', 69), (''KEY_KPSLASH'', 98),
     (''KEY_KPASTERISK'', 55), (''KEY_KPMINUS'', 74), (''KEY_KPPLUS'', 78),
     (''KEY_KPENTER'', 96), (''KEY_KP1'', 79), (''KEY_KP2'', 80), (''KEY_KP3'', 81),
     (''KEY_KP4'', 75), (''KEY_KP5'', 76), (''KEY_KP6'', 77), (''KEY_KP7'', 71),
     (''KEY_KP8'', 72), (''KEY_KP9'', 73), (''KEY_KP0'', 82), (''KEY_KPDOT'', 83),
     (''KEY_POWER'', 116), (''KEY_KPEQUAL'', 117), (''KEY_F13'', 183), (''KEY_F14'', 184),
     (''KEY_F15'', 185), (''KEY_F16'', 186), (''KEY_F17'', 187), (''KEY_F18'', 188),
     (''KEY_F19'', 189), (''KEY_F20'', 190), (''KEY_F21'', 191), (''KEY_F22'', 192),
     (''KEY_F23'', 193), (''KEY_F24'', 194), (''KEY_HELP'', 138), (''KEY_MENU'', 139),
     (''KEY_SELECT'', 353), (''KEY_STOP'', 128), (''KEY_AGAIN'', 129), (''KEY_UNDO'', 131),
     (''KEY_CUT'', 137), (''KEY_COPY'', 133), (''KEY_PASTE'', 135), (''KEY_FIND'', 136),
     (''KEY_MUTE'', 113), (''KEY_VOLUMEUP'', 115), (''KEY_VOLUMEDOWN'', 114),
     (''KEY_KPCOMMA'', 121), (''KEY_ALTERASE'', 222), (''KEY_SYSRQ'', 99),
     (''KEY_CANCEL'', 223), (''KEY_CLEAR'', 355), (''KEY_LEFTCTRL'', 29),
     (''KEY_LEFTSHIFT'', 42), (''KEY_LEFTALT'', 56), (''KEY_LEFTMETA'', 125),
     (''KEY_RIGHTCTRL'', 97), (''KEY_RIGHTSHIFT'', 54), (''KEY_RIGHTALT'', 100)
    ]"

definition linux_key_code :: "string \<Rightarrow> int" where
  "linux_key_code name = (case map_of linux_key_codes name of Some v \<Rightarrow> v | None \<Rightarrow> 0)"

section \<open>Mouse handling\<close>

text \<open>
  C \<open>int\<close> is 32 bits wide.  \<open>int32\<close> is the value of a mathematical result once stored
  in an \<open>int\<close> (two's complement; the C standard leaves signed overflow undefined, the
  compilers in use wrap).  \<open>c_div\<close> is C's division, which truncates towards zero.
\<close>

definition int32 :: "int \<Rightarrow> int" where
  "int32 a = (a + 2 ^ 31) mod 2 ^ 32 - 2 ^ 31"

definition c_div :: "int \<Rightarrow> int \<Rightarrow> int" where
  "c_div a b = (if (a < 0) = (b < 0) then \<bar>a\<bar> div \<bar>b\<bar> else - (\<bar>a\<bar> div \<bar>b\<bar>))"

text \<open>
  The masks \<open>SDL_BUTTON(SDL_BUTTON_LEFT)\<close>, \<open>SDL_BUTTON(SDL_BUTTON_RIGHT)\<close> and
  \<open>SDL_BUTTON(SDL_BUTTON_MIDDLE)\<close> are SDL macros; they are parameters.
\<close>

record sdl_button_masks =
  mask_left :: "32 word"
  mask_right :: "32 word"
  mask_middle :: "32 word"

definition mouse_buttons :: "sdl_button_masks \<Rightarrow> 32 word \<Rightarrow> int" where
  "mouse_buttons bm state =
     (let buttons = 0;
          buttons = (if and state (mask_left bm) \<noteq> 0 then or buttons (push_bit 0 1) else buttons);
          buttons = (if and state (mask_right bm) \<noteq> 0 then or buttons (push_bit 1 1) else buttons);
          buttons = (if and state (mask_middle bm) \<noteq> 0 then or buttons (push_bit 2 1) else buttons)
      in buttons)"

text \<open>
  \<open>sdl_send_mouse_event\<close>.  \<open>sw\<close> and \<open>sh\<close> are the globals \<open>screen_width\<close> and
  \<open>screen_height\<close>.  A division that traps (by zero, or \<open>INT_MIN / -1\<close>) is \<open>None\<close>.
\<close>

definition c_div_traps :: "int \<Rightarrow> int \<Rightarrow> bool" where
  "c_div_traps a b \<longleftrightarrow> b = 0 \<or> (a = - (2 ^ 31) \<and> b = - 1)"

definition sdl_send_mouse_event ::
  "sdl_button_masks \<Rightarrow> int \<Rightarrow> int \<Rightarrow> int \<Rightarrow> int \<Rightarrow> int \<Rightarrow> 32 word \<Rightarrow> bool \<Rightarrow> guest_event option" where
  "sdl_send_mouse_event bm sw sh x1 y1 dz state is_absolute =
     (let buttons = mouse_buttons bm state
      in if is_absolute then
           (if c_div_traps (int32 (x1 * 32768)) sw \<or> c_div_traps (int32 (y1 * 32768)) sh then None
            else Some (vm_send_mouse_event
                         (c_div (int32 (x1 * 32768)) sw) (c_div (int32 (y1 * 32768)) sh) dz buttons))
         else Some (vm_send_mouse_event x1 y1 dz buttons))"

record SDL_MouseMotionEvent =
  motion_state :: "32 word"
  motion_x :: int
  motion_y :: int
  motion_xrel :: int
  motion_yrel :: int

text \<open>
  \<open>sdl_handle_mouse_motion_event\<close>; \<open>is_absolute\<close> is what \<open>vm_mouse_is_absolute(m)\<close>
  returns.
\<close>

definition sdl_handle_mouse_motion_event ::
  "sdl_button_masks \<Rightarrow> int \<Rightarrow> int \<Rightarrow> bool \<Rightarrow> SDL_MouseMotionEvent \<Rightarrow> guest_event option" where
  "sdl_handle_mouse_motion_event bm sw sh is_absolute ev =
     (let x = (if is_absolute then motion_x ev else motion_xrel ev);
          y = (if is_absolute then motion_y ev else motion_yrel ev)
      in sdl_send_mouse_event bm sw sh x y 0 (motion_state ev) is_absolute)"

section \<open>Tone generator\<close>

text \<open>
  \<open>audio_callback\<close> computes in \<open>double\<close> and calls the C library's \<open>sin\<close>; neither
  the arithmetic nor the library is part of the sources, so they are parameters.  A
  finite \<open>double\<close> is a real number, and \<open>ops\<close> gives the product, quotient and sum
  of two doubles as the machine rounds them, the library's sine, and the constant
  \<open>M_PI\<close>.
\<close>

record double_ops =
  dmul :: "real \<Rightarrow> real \<Rightarrow> real"
  ddiv :: "real \<Rightarrow> real \<Rightarrow> real"
  dadd :: "real \<Rightarrow> real \<Rightarrow> real"
  dsin :: "real \<Rightarrow> real"
  M_PI :: real

text \<open>
  What is taken for granted of the arithmetic, each bound far wider than IEEE double
  precision and a C library's sine give: a product or quotient whose exact value \<open>e\<close>
  has magnitude up to \<open>2 ^ 64\<close> is off by at most \<open>(\<bar>e\<bar> + 1) / 2 ^ 50\<close>; adding
  zero changes nothing; for an argument of magnitude up to \<open>2 ^ 40\<close> the sine is
  within \<open>1 / 2 ^ 20\<close> of the mathematical sine; \<open>M_PI\<close> is within \<open>1 / 2 ^ 50\<close>
  of \<open>\<pi>\<close>.
\<close>

definition double_like :: "double_ops \<Rightarrow> bool" where
  "double_like ops \<longleftrightarrow>
     (\<forall>a b. \<bar>a * b\<bar> \<le> 2 ^ 64 \<longrightarrow> \<bar>dmul ops a b - a * b\<bar> \<le> (\<bar>a * b\<bar> + 1) / 2 ^ 50) \<and>
     (\<forall>a b. b \<noteq> 0 \<and> \<bar>a / b\<bar> \<le> 2 ^ 64 \<longrightarrow> \<bar>ddiv ops a b - a / b\<bar> \<le> (\<bar>a / b\<bar> + 1) / 2 ^ 50) \<and>
     (\<forall>a. dadd ops a 0 = a) \<and>
     (\<forall>a. \<bar>a\<bar> \<le> 2 ^ 40 \<longrightarrow> \<bar>dsin ops a - sin a\<bar> \<le> 1 / 2 ^ 20) \<and>
     \<bar>M_PI ops - pi\<bar> \<le> 1 / 2 ^ 50"

text \<open>Arithmetic without any rounding error, one instance of \<open>double_like\<close>.\<close>

definition exact_ops :: double_ops where
  "exact_ops = \<lparr>dmul = (\<lambda>a b. a * b), ddiv = (\<lambda>a b. a / b), dadd = (\<lambda>a b. a + b),
                 dsin = sin, M_PI = pi\<rparr>"

text \<open>
  \<open>beepfreq\<close> is the frequency set by \<open>beep\<close>, \<open>phase\<close> the function-static
  \<open>double v\<close> of \<open>audio_callback\<close>, \<open>have_freq\<close> the field \<open>have.freq\<close>.
  \<open>beep\<close> holds the audio lock while it writes, so a call of \<open>audio_callback\<close> runs
  wholly before or wholly after it; the lock itself is not modelled.
\<close>

record tone_state =
  beepfreq :: int
  phase :: real
  have_freq :: int

definition AMPLITUDE :: int where
  "AMPLITUDE = 8000"

definition beep :: "int \<Rightarrow> tone_state \<Rightarrow> tone_state" where
  "beep freq ts = ts\<lparr>beepfreq := freq\<rparr>"

text \<open>
  The conversion of a \<open>double\<close> to \<open>Sint16\<close> drops the fraction; it is undefined
  (\<open>None\<close>) when the result does not fit 16 bits.
\<close>

definition sint16_of_double :: "real \<Rightarrow> int option" where
  "sint16_of_double a =
     (let t = (if 0 \<le> a then \<lfloor>a\<rfloor> else \<lceil>a\<rceil>)
      in if - 32768 \<le> t \<and> t \<le> 32767 then Some t else None)"

text \<open>
  The sample \<open>AMPLITUDE * sin(v * 2 * M_PI / have.freq)\<close> as stored in the stream.
  With \<open>have.freq = 0\<close> the quotient is not a finite number, nor is its sine, and the
  conversion is undefined.
\<close>

definition tone_sample :: "double_ops \<Rightarrow> tone_state \<Rightarrow> int option" where
  "tone_sample ops ts =
     (if have_freq ts = 0 then None
      else sint16_of_double
             (dmul ops (real_of_int AMPLITUDE)
                (dsin ops
                   (ddiv ops (dmul ops (dmul ops (phase ts) 2) (M_PI ops))
                      (real_of_int (have_freq ts))))))"

text \<open>
  The loop \<open>for (int i = 0; i < length; i++)\<close> of \<open>audio_callback\<close>, from index \<open>i\<close>
  on, writing into the sample buffer \<open>stream\<close>.
\<close>

function audio_loop ::
  "double_ops \<Rightarrow> nat \<Rightarrow> nat \<Rightarrow> int list \<Rightarrow> tone_state \<Rightarrow> (int list \<times> tone_state) option" where
  "audio_loop ops len i stream ts =
     (if i < len then
        (case tone_sample ops ts of
           None \<Rightarrow> None
         | Some sample \<Rightarrow>
             audio_loop ops len (i + 1) (stream[i := sample])
               (ts\<lparr>phase := dadd ops (phase ts) (real_of_int (beepfreq ts))\<rparr>))
      else Some (stream, ts))"
  by pat_completeness auto
termination
  by (relation "measure (\<lambda>(ops, len, i, stream, ts). len - i)") auto

text \<open>
  \<open>audio_callback\<close>: \<open>stream\<close> is the buffer of 16-bit samples that SDL hands over and
  \<open>byte_length\<close> its size in bytes (the parameter \<open>_length\<close>).
\<close>

definition audio_callback ::
  "double_ops \<Rightarrow> int list \<Rightarrow> nat \<Rightarrow> tone_state \<Rightarrow> (int list \<times> tone_state) option" where
  "audio_callback ops stream byte_length ts = audio_loop ops (byte_length div 2) 0 stream ts"

section \<open>Framebuffer surface\<close>

type_synonym handle = nat

record FBDevice =
  fbdev_width :: int
  fbdev_height :: int
  fbdev_stride :: int
  fb_data :: int

record SDL_Surface =
  surface_id :: handle
  pixels :: int
  pitch :: int

record SDL_Rect =
  rect_x :: int
  rect_y :: int
  rect_w :: int
  rect_h :: int

text \<open>The calls that leave the driver, in the order they are made.\<close>

datatype sdl_call =
    SDL_FreeSurface handle
  | SDL_DestroyTexture handle
  | SDL_DestroyRenderer handle
  | SDL_CreateRGBSurfaceFrom int int int int int "32 word" "32 word" "32 word" "32 word"
  | SDL_CreateRenderer
  | SDL_CreateTextureFromSurface handle handle
  | SDL_UpdateTexture "handle option" SDL_Rect int int
  | SDL_RenderCopy "handle option" "handle option"
  | SDL_RenderPresent "handle option"
  | fprintf_stderr string
  | To_guest guest_event

text \<open>How a function ends: it returns, the process exits, or the program faults.\<close>

datatype 'a outcome = Returns 'a | Exits int | Faults

text \<open>The globals of the driver.\<close>

record sdl_state =
  fb_surface :: "SDL_Surface option"
  screen_width :: int
  screen_height :: int
  fb_width :: int
  fb_height :: int
  fb_stride :: int
  key_pressed :: "bool list"
  texture :: "handle option"
  renderer :: "handle option"

text \<open>
  What SDL answers when asked for a surface, a renderer and a texture: a handle, or
  \<open>None\<close> for \<open>NULL\<close>.
\<close>

record sdl_answers =
  new_surface :: "handle option"
  new_renderer :: "handle option"
  new_texture :: "handle option"

definition sdl_update_fb_surface ::
  "sdl_answers \<Rightarrow> FBDevice \<Rightarrow> sdl_state \<Rightarrow> sdl_call list \<times> sdl_state outcome" where
  "sdl_update_fb_surface ans fb_dev s =
     (if fb_surface s = None \<or>
         fb_width s \<noteq> fbdev_width fb_dev \<or>
         fb_height s \<noteq> fbdev_height fb_dev \<or>
         fb_stride s \<noteq> fbdev_stride fb_dev
      then
        (let c0 = (case fb_surface s of None \<Rightarrow> [] | Some old \<Rightarrow> [SDL_FreeSurface (surface_id old)]);
             s = s\<lparr>fb_width := fbdev_width fb_dev, fb_height := fbdev_height fb_dev,
                   fb_stride := fbdev_stride fb_dev\<rparr>;
             c1 = c0 @ [SDL_CreateRGBSurfaceFrom (fb_data fb_dev) (fbdev_width fb_dev)
                          (fbdev_height fb_dev) 32 (fbdev_stride fb_dev)
                          0x00ff0000 0x0000ff00 0x000000ff 0x00000000]
         in case new_surface ans of
              None \<Rightarrow>
                (c1 @ [fprintf_stderr ''Could not create SDL framebuffer surface\<newline>''], Exits 1)
            | Some sf \<Rightarrow>
                (let s = s\<lparr>fb_surface := Some \<lparr>surface_id = sf, pixels = fb_data fb_dev,
                                                pitch = fbdev_stride fb_dev\<rparr>\<rparr>;
                     c2 = c1 @ [SDL_CreateRenderer]
                 in case new_renderer ans of
                      None \<Rightarrow>
                        (c2 @ [fprintf_stderr ''Could not create renderer - exiting\<newline>''], Exits 1)
                    | Some r \<Rightarrow>
                        (let s = s\<lparr>renderer := Some r\<rparr>;
                             c3 = c2 @ [SDL_CreateTextureFromSurface r sf]
                         in case new_texture ans of
                              None \<Rightarrow>
                                (c3 @ [fprintf_stderr ''Could not create texture - exiting\<newline>''],
                                 Exits 1)
                            | Some t \<Rightarrow> (c3, Returns (s\<lparr>texture := Some t\<rparr>)))))
      else ([], Returns s))"

text \<open>
  \<open>sdl_update\<close>, the callback that presents one rectangle.  It reads through
  \<open>fb_surface\<close>, so a null surface is a fault.
\<close>

definition sdl_update :: "sdl_state \<Rightarrow> SDL_Rect \<Rightarrow> sdl_call list outcome" where
  "sdl_update s r =
     (case fb_surface s of
        None \<Rightarrow> Faults
      | Some sf \<Rightarrow>
          Returns [SDL_UpdateTexture (texture s) r (pixels sf + pitch sf * rect_y r + rect_x r) (pitch sf),
                   SDL_RenderCopy (renderer s) (texture s),
                   SDL_RenderPresent (renderer s)])"

text \<open>
  \<open>fb_dev->refresh(fb_dev, sdl_update, NULL)\<close>: the device, which is not part of the
  driver, calls \<open>sdl_update\<close> once for each rectangle it reports; the rectangles are a
  parameter.
\<close>

fun fb_refresh :: "sdl_state \<Rightarrow> SDL_Rect list \<Rightarrow> sdl_call list \<times> unit outcome" where
  "fb_refresh s [] = ([], Returns ())"
| "fb_refresh s (r # rs) =
     (case sdl_update s r of
        Returns c \<Rightarrow> (case fb_refresh s rs of (cs, res) \<Rightarrow> (c @ cs, res))
      | Exits n \<Rightarrow> ([], Exits n)
      | Faults \<Rightarrow> ([], Faults))"

section \<open>Refresh\<close>

text \<open>
  An \<open>SDL_Event\<close> is a union whose members all start with the event type; the members
  read by the driver are laid side by side here.
\<close>

record SDL_Event =
  ev_type :: sdl_event_type
  key_scancode :: int
  motion :: SDL_MouseMotionEvent

record VirtMachine =
  fb_dev :: "FBDevice option"
  vm_mouse_is_absolute :: bool

text \<open>
  The loop \<open>while (SDL_PollEvent(ev))\<close> of \<open>sdl_refresh\<close> over the queue of pending
  events.  It returns the calls made, and the driver state with the events left in the
  queue.
\<close>

fun sdl_poll_events ::
  "16 word list \<Rightarrow> sdl_button_masks \<Rightarrow> VirtMachine \<Rightarrow> SDL_Event list \<Rightarrow> sdl_state \<Rightarrow>
     sdl_call list \<times> (sdl_state \<times> SDL_Event list) outcome" where
  "sdl_poll_events km bm m [] s = ([], Returns (s, []))"
| "sdl_poll_events km bm m (ev # queue) s =
     (if ev_type ev = SDL_KEYDOWN \<or> ev_type ev = SDL_KEYUP then
        (case sdl_handle_key_event km \<lparr>kev_type = ev_type ev, kev_scancode = key_scancode ev\<rparr>
                (key_pressed s) of
           None \<Rightarrow> ([], Faults)
         | Some (out, kp) \<Rightarrow>
             (case sdl_poll_events km bm m queue (s\<lparr>key_pressed := kp\<rparr>) of
                (cs, res) \<Rightarrow> (map To_guest out @ cs, res)))
      else if ev_type ev = SDL_MOUSEMOTION then
        (case sdl_handle_mouse_motion_event bm (screen_width s) (screen_height s)
                (vm_mouse_is_absolute m) (motion ev) of
           None \<Rightarrow> ([], Faults)
         | Some g \<Rightarrow>
             (case sdl_poll_events km bm m queue s of (cs, res) \<Rightarrow> (To_guest g # cs, res)))
      else if ev_type ev = SDL_MOUSEBUTTONDOWN \<or> ev_type ev = SDL_MOUSEBUTTONUP then
        sdl_poll_events km bm m queue s
      else if ev_type ev = SDL_QUIT then ([], Exits 0)
      else sdl_poll_events km bm m queue s)"

text \<open>
  \<open>sdl_refresh\<close>.  \<open>dirty\<close> are the rectangles the framebuffer device reports in this
  tick and \<open>queue\<close> the host events pending.
\<close>

definition sdl_refresh ::
  "16 word list \<Rightarrow> sdl_button_masks \<Rightarrow> sdl_answers \<Rightarrow> SDL_Rect list \<Rightarrow> VirtMachine \<Rightarrow>
     SDL_Event list \<Rightarrow> sdl_state \<Rightarrow> sdl_call list \<times> (sdl_state \<times> SDL_Event list) outcome" where
  "sdl_refresh km bm ans dirty m queue s =
     (case fb_dev m of
        None \<Rightarrow> ([], Returns (s, queue))
      | Some dev \<Rightarrow>
          (case sdl_update_fb_surface ans dev s of
             (c1, Exits n) \<Rightarrow> (c1, Exits n)
           | (c1, Faults) \<Rightarrow> (c1, Faults)
           | (c1, Returns s1) \<Rightarrow>
               (case fb_refresh s1 dirty of
                  (c2, Exits n) \<Rightarrow> (c1 @ c2, Exits n)
                | (c2, Faults) \<Rightarrow> (c1 @ c2, Faults)
                | (c2, Returns u) \<Rightarrow>
                    (case sdl_poll_events km bm m queue s1 of
                       (c3, res) \<Rightarrow> (c1 @ c2 @ c3, res)))))"

section \<open>Wheel deltas, and inputs for the examples\<close>

text \<open>The wheel deltas of the mouse events among a list of calls, in order.\<close>

fun wheel_deltas :: "sdl_call list \<Rightarrow> int list" where
  "wheel_deltas [] = []"
| "wheel_deltas (To_guest (vm_send_mouse_event x y dz buttons) # cs) = dz # wheel_deltas cs"
| "wheel_deltas (c # cs) = wheel_deltas cs"

text \<open>
  A small table (scancode 1 is key 2, scancode 2 is key 3, scancode 3 is key 5,
  scancode 5 is key 7), SDL's button masks, a 640 by 480 framebuffer device, the
  driver's state before the first tick, and events.
\<close>

definition ex_keymap :: "16 word list" where
  "ex_keymap = [0, 2, 3, 5, 0, 7, 0, 0]"

definition ex_masks :: sdl_button_masks where
  "ex_masks = \<lparr>mask_left = 1, mask_right = 4, mask_middle = 2\<rparr>"

definition ex_device :: FBDevice where
  "ex_device = \<lparr>fbdev_width = 640, fbdev_height = 480, fbdev_stride = 2560, fb_data = 4096\<rparr>"

definition ex_machine :: VirtMachine where
  "ex_machine = \<lparr>fb_dev = Some ex_device, vm_mouse_is_absolute = True\<rparr>"

definition ex_answers :: sdl_answers where
  "ex_answers = \<lparr>new_surface = Some 1, new_renderer = Some 2, new_texture = Some 3\<rparr>"

definition ex_state :: sdl_state where
  "ex_state =
     \<lparr>fb_surface = None, screen_width = 640, screen_height = 480,
      fb_width = 0, fb_height = 0, fb_stride = 0,
      key_pressed = [False, False, False, False, False, False, False, False],
      texture = None, renderer = None\<rparr>"

definition ex_ready :: sdl_state where
  "ex_ready =
     ex_state\<lparr>fb_surface := Some \<lparr>surface_id = 1, pixels = 4096, pitch = 2560\<rparr>,
       fb_width := 640, fb_height := 480, fb_stride := 2560,
       texture := Some 3, renderer := Some 2\<rparr>"

definition ex_rect :: SDL_Rect where
  "ex_rect = \<lparr>rect_x = 0, rect_y = 16, rect_w = 640, rect_h = 16\<rparr>"

definition ex_event :: "sdl_event_type \<Rightarrow> SDL_Event" where
  "ex_event ty =
     \<lparr>ev_type = ty, key_scancode = 0,
      motion = \<lparr>motion_state = 0, motion_x = 0, motion_y = 0, motion_xrel = 0, motion_yrel = 0\<rparr>\<rparr>"

definition ex_key :: "sdl_event_type \<Rightarrow> int \<Rightarrow> SDL_Event" where
  "ex_key ty scancode = (ex_event ty)\<lparr>key_scancode := scancode\<rparr>"

definition ex_motion :: "int \<Rightarrow> int \<Rightarrow> SDL_Event" where
  "ex_motion x y =
     (ex_event SDL_MOUSEMOTION)
       \<lparr>motion := \<lparr>motion_state = 0, motion_x = x, motion_y = y, motion_xrel = 0, motion_yrel = 0\<rparr>\<rparr>"

section \<open>Reachable keyboard states\<close>

text \<open>
  The states of \<open>key_pressed\<close> that the keyboard handler can reach: the array has
  \<open>NR_KEYS\<close> elements and element 0 is never set, since key code 0 means "no key".
\<close>

definition key_state_ok :: "16 word list \<Rightarrow> bool list \<Rightarrow> bool" where
  "key_state_ok km kp \<longleftrightarrow> length kp = length km \<and> (kp \<noteq> [] \<longrightarrow> \<not> kp ! 0)"

declare sdl_reset_keys_loop.simps [simp del]
declare audio_loop.simps [simp del]

section \<open>Scancode translation is total and stays inside the table\<close>

text \<open>
  Claim C3.  A scancode at or beyond \<open>NR_KEYS\<close> translates to 0 and the table is not
  read; a scancode inside the table translates to its entry, and the read is inside the
  array (the result is \<open>Some\<close>).  Scancodes are the non-negative values of SDL's
  enumeration.  The translation is a function of the scancode and of the constant table
  alone, so equal scancodes give equal key codes.
\<close>

theorem sdl_get_keycode_total_safe:
  "(NR_KEYS km \<le> scancode \<longrightarrow> sdl_get_keycode km scancode = Some 0) \<and>
   (0 \<le> scancode \<and> scancode < NR_KEYS km \<longrightarrow>
      sdl_get_keycode km scancode = Some (uint (km ! nat scancode)))"
  by (simp add: sdl_get_keycode_def keymap_at_def NR_KEYS_def)


theorem sdl_get_keycode_total_safe_witness:
  "sdl_get_keycode [0, 0, 0, 0, 30, 48] 6 = Some 0 \<and>
   sdl_get_keycode [0, 0, 0, 0, 30, 48] 700 = Some 0 \<and>
   sdl_get_keycode [0, 0, 0, 0, 30, 48] 5 = Some 48 \<and>
   sdl_get_keycode [0, 0, 0, 0, 30, 48] 0 = Some 0"
  using sdl_get_keycode_total_safe [of "[0, 0, 0, 0, 30, 48]" 6]
        sdl_get_keycode_total_safe [of "[0, 0, 0, 0, 30, 48]" 700]
        sdl_get_keycode_total_safe [of "[0, 0, 0, 0, 30, 48]" 5]
        sdl_get_keycode_total_safe [of "[0, 0, 0, 0, 30, 48]" 0]
  by (simp add: NR_KEYS_def)

text \<open>
  The comparison with \<open>NR_KEYS\<close> is signed, so an \<open>int\<close> below zero, which is not a
  scancode, would index in front of the table.
\<close>

lemma sdl_get_keycode_negative: "scancode < 0 \<Longrightarrow> sdl_get_keycode km scancode = None"
  by (simp add: sdl_get_keycode_def keymap_at_def NR_KEYS_def)

section \<open>Releasing all pressed keys\<close>

lemma reset_loop_length: "length (snd (sdl_reset_keys_loop n i kp)) = length kp"
proof (induction n i kp rule: sdl_reset_keys_loop.induct)
  case (1 n i kp)
  show ?case
  proof (cases "i < n")
    case False
    then show ?thesis by (subst sdl_reset_keys_loop.simps) simp
  next
    case True
    with "1" show ?thesis
      by (cases "kp ! i") (subst sdl_reset_keys_loop.simps, simp add: Let_def)+
  qed
qed

lemma reset_loop_result:
  "length kp = n \<Longrightarrow>
   sdl_reset_keys_loop n i kp =
     (map (\<lambda>k. vm_send_key_event False (int k)) (filter (\<lambda>k. kp ! k) [i..<n]),
      take i kp @ replicate (n - i) False)"
proof (induction n i kp rule: sdl_reset_keys_loop.induct)
  case (1 n i kp)
  show ?case
  proof (cases "i < n")
    case False
    with "1.prems" show ?thesis by (subst sdl_reset_keys_loop.simps) simp
  next
    case lt: True
    have up: "[i..<n] = i # [Suc i..<n]" using lt by (simp add: upt_conv_Cons)
    have rep: "replicate (n - i) False = False # replicate (n - Suc i) False"
      using lt by (simp add: Suc_diff_Suc flip: replicate_Suc)
    show ?thesis
    proof (cases "kp ! i")
      case True
      have len: "length (kp[i := False]) = n" using "1.prems" by simp
      have flt: "filter (\<lambda>k. kp[i := False] ! k) [Suc i..<n] = filter (\<lambda>k. kp ! k) [Suc i..<n]"
        by (rule filter_cong) auto
      have tk: "take (Suc i) (kp[i := False]) = take i kp @ [False]"
        using lt "1.prems" by (simp add: take_Suc_conv_app_nth)
      from "1.IH"(1)[OF lt True len] True lt show ?thesis
        by (subst sdl_reset_keys_loop.simps) (simp add: Let_def up rep flt tk)
    next
      case False
      have tk: "take (Suc i) kp = take i kp @ [False]"
        using lt "1.prems" False by (simp add: take_Suc_conv_app_nth)
      from "1.IH"(2)[OF lt False "1.prems"] False lt show ?thesis
        by (subst sdl_reset_keys_loop.simps) (simp add: Let_def up rep tk)
    qed
  qed
qed


lemma key_state_ok_init: "key_state_ok km (key_pressed_init km)"
  by (simp add: key_state_ok_def key_pressed_init_def NR_KEYS_def)

lemma reset_keys_all:
  assumes "key_state_ok km kp"
  shows "sdl_reset_keys km kp =
     (map (\<lambda>k. vm_send_key_event False (int k)) (filter (\<lambda>k. kp ! k) [0..<length kp]),
      replicate (length kp) False)"
proof (cases kp)
  case Nil
  with assms show ?thesis
    by (simp add: sdl_reset_keys_def NR_KEYS_def key_state_ok_def sdl_reset_keys_loop.simps)
next
  case (Cons b bs)
  from assms have len: "length kp = nat (NR_KEYS km)" and z: "\<not> kp ! 0"
    using Cons by (simp_all add: key_state_ok_def NR_KEYS_def)
  from z Cons have b: "b = False" by simp
  have up: "[0..<length kp] = 0 # [Suc 0..<length kp]"
    by (rule upt_conv_Cons) (simp add: Cons)
  have "sdl_reset_keys km kp =
     (map (\<lambda>k. vm_send_key_event False (int k)) (filter (\<lambda>k. kp ! k) [Suc 0..<length kp]),
      take (Suc 0) kp @ replicate (length kp - Suc 0) False)"
    unfolding sdl_reset_keys_def using reset_loop_result [OF len, of "Suc 0"] len by simp
  moreover have "filter (\<lambda>k. kp ! k) [0..<length kp] = filter (\<lambda>k. kp ! k) [Suc 0..<length kp]"
    using z by (subst up) simp
  moreover have "take (Suc 0) kp @ replicate (length kp - Suc 0) False = replicate (length kp) False"
    using Cons b by simp
  ultimately show ?thesis by simp
qed

lemma handle_key_event_ok:
  assumes "key_state_ok km kp" and "sdl_handle_key_event km ev kp = Some (out, kp')"
  shows "key_state_ok km kp'"
proof -
  obtain keycode where kc: "sdl_get_keycode km (kev_scancode ev) = Some keycode"
    using assms(2) by (auto simp: sdl_handle_key_event_def split: option.splits)
  show ?thesis
  proof (cases "keycode = 0")
    case True
    show ?thesis
    proof (cases "kev_type ev = SDL_KEYUP")
      case True
      with \<open>keycode = 0\<close> kc assms(2) have "kp' = snd (sdl_reset_keys km kp)"
        by (auto simp: sdl_handle_key_event_def)
      then have "kp' = replicate (length kp) False"
        by (simp add: reset_keys_all [OF assms(1)])
      with assms(1) show ?thesis by (auto simp: key_state_ok_def)
    next
      case False
      with \<open>keycode = 0\<close> kc assms show ?thesis
        by (auto simp: sdl_handle_key_event_def)
    qed
  next
    case False
    then have nz: "nat keycode \<noteq> 0 \<or> keycode < 0" by auto
    from False kc assms(2) have "kp' = kp \<or> (0 < keycode \<and> (\<exists>b. kp' = kp[nat keycode := b]))"
    proof -
      have "0 \<le> keycode" using kc
        by (auto simp: sdl_get_keycode_def keymap_at_def split: if_splits)
      with False kc assms(2) show ?thesis
        by (auto simp: sdl_handle_key_event_def Let_def split: if_splits)
    qed
    with assms(1) show ?thesis
      by (auto simp: key_state_ok_def nth_list_update)
  qed
qed

lemma handle_key_events_ok:
  "key_state_ok km kp \<Longrightarrow> sdl_handle_key_events km evs kp = Some (out, kp') \<Longrightarrow> key_state_ok km kp'"
proof (induction evs arbitrary: kp out)
  case Nil
  then show ?case by simp
next
  case (Cons ev evs)
  from Cons.prems(2) obtain o1 k1 o2 where
    h1: "sdl_handle_key_event km ev kp = Some (o1, k1)" and
    h2: "sdl_handle_key_events km evs k1 = Some (o2, kp')"
    by (auto split: option.splits)
  from handle_key_event_ok [OF Cons.prems(1) h1] h2 Cons.IH show ?case by blast
qed

text \<open>
  Claim C1.  Let \<open>kp\<close> be the state of \<open>key_pressed\<close> after any sequence of keyboard
  events from the initial state (sequences of key presses are among them).  A key
  release whose scancode translates to 0 then sends one release for each key code marked
  in \<open>kp\<close>, in ascending order of key code, and leaves every element of \<open>kp\<close>
  false; a key press whose scancode translates to 0 sends nothing and leaves \<open>kp\<close> as
  it is.
\<close>

theorem unmapped_release_resets_keys:
  assumes "sdl_handle_key_events km evs (key_pressed_init km) = Some (out, kp)"
      and "sdl_get_keycode km (kev_scancode ev) = Some 0"
  shows "(kev_type ev = SDL_KEYUP \<longrightarrow>
            sdl_handle_key_event km ev kp =
              Some (map (\<lambda>k. vm_send_key_event False (int k)) (filter (\<lambda>k. kp ! k) [0..<length kp]),
                    replicate (length kp) False)) \<and>
         (kev_type ev = SDL_KEYDOWN \<longrightarrow> sdl_handle_key_event km ev kp = Some ([], kp))"
proof -
  have ok: "key_state_ok km kp"
    using handle_key_events_ok [OF key_state_ok_init assms(1)] .
  show ?thesis
    using assms(2) reset_keys_all [OF ok] by (simp add: sdl_handle_key_event_def)
qed


theorem unmapped_release_resets_keys_witness:
  "sdl_handle_key_event [0, 2, 3, 5, 0, 7, 0, 0] \<lparr>kev_type = SDL_KEYUP, kev_scancode = 4\<rparr>
     [False, False, True, False, False, True, False, False] =
     Some ([vm_send_key_event False 2, vm_send_key_event False 5],
           [False, False, False, False, False, False, False, False]) \<and>
   sdl_handle_key_event [0, 2, 3, 5, 0, 7, 0, 0] \<lparr>kev_type = SDL_KEYDOWN, kev_scancode = 9\<rparr>
     [False, False, True, False, False, True, False, False] =
     Some ([], [False, False, True, False, False, True, False, False])"
proof -
  let ?km = "[0, 2, 3, 5, 0, 7, 0, 0] :: 16 word list"
  let ?evs = "[\<lparr>kev_type = SDL_KEYDOWN, kev_scancode = 3\<rparr>,
               \<lparr>kev_type = SDL_KEYDOWN, kev_scancode = 1\<rparr>]"
  let ?kp = "[False, False, True, False, False, True, False, False]"
  have run: "sdl_handle_key_events ?km ?evs (key_pressed_init ?km) =
               Some ([vm_send_key_event True 5, vm_send_key_event True 2], ?kp)"
    by code_simp
  have up: "sdl_get_keycode ?km (kev_scancode \<lparr>kev_type = SDL_KEYUP, kev_scancode = 4\<rparr>) = Some 0"
    by code_simp
  have down: "sdl_get_keycode ?km (kev_scancode \<lparr>kev_type = SDL_KEYDOWN, kev_scancode = 9\<rparr>) = Some 0"
    by code_simp
  have fl: "filter (\<lambda>k. ?kp ! k) [0..<length ?kp] = [2, 5]"
    by code_simp
  show ?thesis
    using unmapped_release_resets_keys [OF run up] unmapped_release_resets_keys [OF run down] fl
    by (simp add: numeral_eq_Suc)
qed

section \<open>Caps Lock and Num Lock\<close>

text \<open>
  Claim C2.  When the scancode of a keyboard event translates to key code \<open>0x3a\<close>
  (Caps Lock) or \<open>0x45\<close> (Num Lock), the handler sends a press and then a release of
  that key code, whether the host event is a press or a release, and \<open>key_pressed\<close>
  is left as it is.
\<close>

theorem lock_keys_press_then_release:
  assumes "sdl_get_keycode km (kev_scancode ev) = Some keycode"
      and "keycode = 0x3a \<or> keycode = 0x45"
  shows "sdl_handle_key_event km ev kp =
           Some ([vm_send_key_event True keycode, vm_send_key_event False keycode], kp)"
  using assms by (auto simp: sdl_handle_key_event_def)


theorem lock_keys_press_then_release_witness:
  "sdl_handle_key_event [0, 0x3a, 0x45] \<lparr>kev_type = SDL_KEYUP, kev_scancode = 1\<rparr>
     [False, False, False] =
     Some ([vm_send_key_event True 0x3a, vm_send_key_event False 0x3a], [False, False, False]) \<and>
   sdl_handle_key_event [0, 0x3a, 0x45] \<lparr>kev_type = SDL_KEYDOWN, kev_scancode = 2\<rparr>
     [False, False, False] =
     Some ([vm_send_key_event True 0x45, vm_send_key_event False 0x45], [False, False, False])"
proof -
  have caps: "sdl_get_keycode [0, 0x3a, 0x45]
                (kev_scancode \<lparr>kev_type = SDL_KEYUP, kev_scancode = 1\<rparr>) = Some 0x3a"
    by code_simp
  have num: "sdl_get_keycode [0, 0x3a, 0x45]
                (kev_scancode \<lparr>kev_type = SDL_KEYDOWN, kev_scancode = 2\<rparr>) = Some 0x45"
    by code_simp
  show ?thesis
    using lock_keys_press_then_release [OF caps, of "[False, False, False]"]
          lock_keys_press_then_release [OF num, of "[False, False, False]"]
    by simp
qed

section \<open>Entries of the scancode table\<close>

lemma filter_distinct_image:
  "distinct (map f xs) \<Longrightarrow> x \<in> set xs \<Longrightarrow> filter (\<lambda>d. f d = f x) xs = [x]"
proof (induction xs)
  case Nil
  then show ?case by simp
next
  case (Cons a xs)
  show ?case
  proof (cases "a = x")
    case True
    with Cons.prems(1) have "f x \<notin> f ` set xs" by simp
    then have "\<forall>d \<in> set xs. f d \<noteq> f x" by (metis imageI)
    then have "filter (\<lambda>d. f d = f x) xs = []" by (simp add: filter_empty_conv)
    with True show ?thesis by simp
  next
    case False
    with Cons.prems have "x \<in> set xs" and "f a \<noteq> f x" by auto
    with Cons show ?thesis by simp
  qed
qed

lemma keymap_entry_designated:
  assumes "distinct (map (sc \<circ> fst) keymap_init)" and "(s, k) \<in> set keymap_init"
  shows "keymap_entry sc key (sc s) = word_of_int (key k)"
proof -
  have "filter (\<lambda>d. (sc \<circ> fst) d = (sc \<circ> fst) (s, k)) keymap_init = [(s, k)]"
    using assms by (rule filter_distinct_image)
  then show ?thesis by (simp add: keymap_entry_def)
qed

lemma get_keycode_designated:
  assumes "distinct (map (sc \<circ> fst) keymap_init)" and "(s, k) \<in> set keymap_init"
      and "sc s < n"
  shows "sdl_get_keycode (keymap n sc key) (int (sc s)) = Some (uint (word_of_int (key k) :: 16 word))"
  using assms(3) keymap_entry_designated [OF assms(1,2)]
  by (simp add: sdl_get_keycode_def keymap_at_def NR_KEYS_def keymap_def)


lemma sdl2_names_distinct: "distinct (map fst sdl2_scancodes)"
  by (simp add: sdl2_scancodes_def)

lemma linux_names_distinct: "distinct (map fst linux_key_codes)"
  by (simp add: linux_key_codes_def)

lemma sdl2_scancode_eq: "(name, v) \<in> set sdl2_scancodes \<Longrightarrow> sdl2_scancode name = v"
  using sdl2_names_distinct by (simp add: sdl2_scancode_def)

lemma linux_key_code_eq: "(name, v) \<in> set linux_key_codes \<Longrightarrow> linux_key_code name = v"
  using linux_names_distinct by (simp add: linux_key_code_def)

lemma sdl2_designator_names: "map fst keymap_init = map fst sdl2_scancodes"
  by (simp add: keymap_init_def sdl2_scancodes_def)

lemma sdl2_designator_values: "map (sdl2_scancode \<circ> fst) keymap_init = map snd sdl2_scancodes"
proof -
  have "map (sdl2_scancode \<circ> fst) keymap_init = map sdl2_scancode (map fst sdl2_scancodes)"
    by (simp flip: sdl2_designator_names)
  also have "\<dots> = map snd sdl2_scancodes"
    by (simp add: sdl2_scancode_eq)
  finally show ?thesis .
qed

lemma sdl2_designators_distinct: "distinct (map (sdl2_scancode \<circ> fst) keymap_init)"
  unfolding sdl2_designator_values by (simp add: sdl2_scancodes_def)

lemma sdl2_designators_fit: "\<forall>d \<in> set keymap_init. sdl2_scancode (fst d) < 256"
proof -
  have "\<forall>v \<in> set (map snd sdl2_scancodes). v < 256"
    by (simp add: sdl2_scancodes_def)
  then have "\<forall>v \<in> set (map (sdl2_scancode \<circ> fst) keymap_init). v < 256"
    by (simp only: sdl2_designator_values)
  then show ?thesis by simp
qed

text \<open>
  Claim C4.  Whatever values the headers give, as long as the scancodes named in the
  table have distinct values that fit in the table (SDL's enumeration gives distinct
  values, and an initialiser beyond \<open>NR_KEYS\<close> would not compile): the scancodes
  \<open>BACKSLASH\<close>, \<open>NONUSHASH\<close> and \<open>NONUSBACKSLASH\<close> all translate to
  \<open>KEY_BACKSLASH\<close>, \<open>KP_EQUALS\<close> and \<open>KP_EQUALSAS400\<close> both to \<open>KEY_KPEQUAL\<close>,
  \<open>RETURN\<close> and \<open>RETURN2\<close> both to \<open>KEY_ENTER\<close>.
\<close>

theorem keymap_collapsed_scancodes:
  assumes "distinct (map (sc \<circ> fst) keymap_init)"
      and "\<forall>d \<in> set keymap_init. sc (fst d) < n"
  shows "sdl_get_keycode (keymap n sc key) (int (sc ''SDL_SCANCODE_BACKSLASH'')) =
           Some (uint (word_of_int (key ''KEY_BACKSLASH'') :: 16 word)) \<and>
         sdl_get_keycode (keymap n sc key) (int (sc ''SDL_SCANCODE_NONUSHASH'')) =
           Some (uint (word_of_int (key ''KEY_BACKSLASH'') :: 16 word)) \<and>
         sdl_get_keycode (keymap n sc key) (int (sc ''SDL_SCANCODE_NONUSBACKSLASH'')) =
           Some (uint (word_of_int (key ''KEY_BACKSLASH'') :: 16 word)) \<and>
         sdl_get_keycode (keymap n sc key) (int (sc ''SDL_SCANCODE_KP_EQUALS'')) =
           Some (uint (word_of_int (key ''KEY_KPEQUAL'') :: 16 word)) \<and>
         sdl_get_keycode (keymap n sc key) (int (sc ''SDL_SCANCODE_KP_EQUALSAS400'')) =
           Some (uint (word_of_int (key ''KEY_KPEQUAL'') :: 16 word)) \<and>
         sdl_get_keycode (keymap n sc key) (int (sc ''SDL_SCANCODE_RETURN'')) =
           Some (uint (word_of_int (key ''KEY_ENTER'') :: 16 word)) \<and>
         sdl_get_keycode (keymap n sc key) (int (sc ''SDL_SCANCODE_RETURN2'')) =
           Some (uint (word_of_int (key ''KEY_ENTER'') :: 16 word))"
proof -
  have m1: "(''SDL_SCANCODE_BACKSLASH'', ''KEY_BACKSLASH'') \<in> set keymap_init"
    and m2: "(''SDL_SCANCODE_NONUSHASH'', ''KEY_BACKSLASH'') \<in> set keymap_init"
    and m3: "(''SDL_SCANCODE_NONUSBACKSLASH'', ''KEY_BACKSLASH'') \<in> set keymap_init"
    and m4: "(''SDL_SCANCODE_KP_EQUALS'', ''KEY_KPEQUAL'') \<in> set keymap_init"
    and m5: "(''SDL_SCANCODE_KP_EQUALSAS400'', ''KEY_KPEQUAL'') \<in> set keymap_init"
    and m6: "(''SDL_SCANCODE_RETURN'', ''KEY_ENTER'') \<in> set keymap_init"
    and m7: "(''SDL_SCANCODE_RETURN2'', ''KEY_ENTER'') \<in> set keymap_init"
    by (simp_all add: keymap_init_def)
  have fit: "(s, k) \<in> set keymap_init \<Longrightarrow> sc s < n" for s k
    using assms(2) by force
  show ?thesis
    using get_keycode_designated [OF assms(1) m1 fit [OF m1]]
          get_keycode_designated [OF assms(1) m2 fit [OF m2]]
          get_keycode_designated [OF assms(1) m3 fit [OF m3]]
          get_keycode_designated [OF assms(1) m4 fit [OF m4]]
          get_keycode_designated [OF assms(1) m5 fit [OF m5]]
          get_keycode_designated [OF assms(1) m6 fit [OF m6]]
          get_keycode_designated [OF assms(1) m7 fit [OF m7]]
    by simp
qed

theorem keymap_collapsed_scancodes_witness:
  "sdl_get_keycode (keymap 256 sdl2_scancode linux_key_code) 49 = Some 43 \<and>
   sdl_get_keycode (keymap 256 sdl2_scancode linux_key_code) 50 = Some 43 \<and>
   sdl_get_keycode (keymap 256 sdl2_scancode linux_key_code) 100 = Some 43 \<and>
   sdl_get_keycode (keymap 256 sdl2_scancode linux_key_code) 103 = Some 117 \<and>
   sdl_get_keycode (keymap 256 sdl2_scancode linux_key_code) 134 = Some 117 \<and>
   sdl_get_keycode (keymap 256 sdl2_scancode linux_key_code) 40 = Some 28 \<and>
   sdl_get_keycode (keymap 256 sdl2_scancode linux_key_code) 158 = Some 28"
proof -
  have s: "sdl2_scancode ''SDL_SCANCODE_BACKSLASH'' = 49"
          "sdl2_scancode ''SDL_SCANCODE_NONUSHASH'' = 50"
          "sdl2_scancode ''SDL_SCANCODE_NONUSBACKSLASH'' = 100"
          "sdl2_scancode ''SDL_SCANCODE_KP_EQUALS'' = 103"
          "sdl2_scancode ''SDL_SCANCODE_KP_EQUALSAS400'' = 134"
          "sdl2_scancode ''SDL_SCANCODE_RETURN'' = 40"
          "sdl2_scancode ''SDL_SCANCODE_RETURN2'' = 158"
    by (rule sdl2_scancode_eq, simp add: sdl2_scancodes_def)+
  have k: "linux_key_code ''KEY_BACKSLASH'' = 43"
          "linux_key_code ''KEY_KPEQUAL'' = 117"
          "linux_key_code ''KEY_ENTER'' = 28"
    by (rule linux_key_code_eq, simp add: linux_key_codes_def)+
  show ?thesis
    using keymap_collapsed_scancodes [OF sdl2_designators_distinct sdl2_designators_fit, of linux_key_code]
    by (simp add: s k)
qed


section \<open>Pointer coordinates\<close>

lemma int32_id: "- (2 ^ 31) \<le> a \<Longrightarrow> a < 2 ^ 31 \<Longrightarrow> int32 a = a"
  by (simp add: int32_def)

lemma int32_scaled: "0 \<le> a \<Longrightarrow> a \<le> 65535 \<Longrightarrow> int32 (a * 32768) = a * 32768"
  by (rule int32_id) simp_all

lemma c_div_nonneg: "0 \<le> a \<Longrightarrow> 0 < b \<Longrightarrow> c_div a b = a div b"
  by (simp add: c_div_def)

lemma scaled_inside:
  fixes a w :: int
  assumes "0 \<le> a" and "a < w"
  shows "0 \<le> a * 32768 div w \<and> a * 32768 div w \<le> 32767"
proof -
  from assms have w: "0 < w" by simp
  define q where "q = a * 32768 div w"
  have "w * q + a * 32768 mod w = a * 32768"
    unfolding q_def by simp
  moreover have "0 \<le> a * 32768 mod w"
    using w by simp
  ultimately have "w * q \<le> a * 32768" by linarith
  also have "a * 32768 < w * 32768" using assms by simp
  finally have "w * q < w * 32768" .
  then have "q < 32768"
    using w by (simp only: mult_less_cancel_left_pos)
  moreover have "0 \<le> q"
    unfolding q_def using assms w by (simp add: pos_imp_zdiv_nonneg_iff)
  ultimately show ?thesis unfolding q_def by simp
qed

text \<open>
  Claim C5, as the code has it.  With a window of positive width \<open>sw\<close> and height
  \<open>sh\<close> and an event at pixel \<open>(x, y)\<close> with \<open>0 \<le> x, y \<le> 65535\<close> (beyond that
  \<open>x * 32768\<close> does not fit a 32-bit \<open>int\<close>), absolute mode sends
  \<open>(x * 32768 div sw, y * 32768 div sh)\<close>: pixel 0 gives 0, pixel \<open>sw\<close> gives 32768, and
  a pixel inside the window, \<open>0 \<le> x < sw\<close>, gives a value from 0 to 32767.  Relative mode
  sends the deltas \<open>xrel\<close> and \<open>yrel\<close> as they are.  The wheel delta sent is 0.
\<close>

theorem pointer_scaling:
  assumes "0 < sw" and "0 < sh"
      and "0 \<le> motion_x ev" and "motion_x ev \<le> 65535"
      and "0 \<le> motion_y ev" and "motion_y ev \<le> 65535"
  shows "sdl_handle_mouse_motion_event bm sw sh True ev =
           Some (vm_send_mouse_event (motion_x ev * 32768 div sw) (motion_y ev * 32768 div sh) 0
                   (mouse_buttons bm (motion_state ev))) \<and>
         (motion_x ev = 0 \<longrightarrow> motion_x ev * 32768 div sw = 0) \<and>
         (motion_y ev = 0 \<longrightarrow> motion_y ev * 32768 div sh = 0) \<and>
         (motion_x ev = sw \<longrightarrow> motion_x ev * 32768 div sw = 32768) \<and>
         (motion_y ev = sh \<longrightarrow> motion_y ev * 32768 div sh = 32768) \<and>
         (motion_x ev < sw \<longrightarrow>
            0 \<le> motion_x ev * 32768 div sw \<and> motion_x ev * 32768 div sw \<le> 32767) \<and>
         (motion_y ev < sh \<longrightarrow>
            0 \<le> motion_y ev * 32768 div sh \<and> motion_y ev * 32768 div sh \<le> 32767) \<and>
         sdl_handle_mouse_motion_event bm sw sh False ev =
           Some (vm_send_mouse_event (motion_xrel ev) (motion_yrel ev) 0
                   (mouse_buttons bm (motion_state ev)))"
proof -
  have x32: "int32 (motion_x ev * 32768) = motion_x ev * 32768"
    using assms(3,4) by (rule int32_scaled)
  have y32: "int32 (motion_y ev * 32768) = motion_y ev * 32768"
    using assms(5,6) by (rule int32_scaled)
  have xd: "c_div (motion_x ev * 32768) sw = motion_x ev * 32768 div sw"
    using assms(1,3) by (simp add: c_div_nonneg)
  have yd: "c_div (motion_y ev * 32768) sh = motion_y ev * 32768 div sh"
    using assms(2,5) by (simp add: c_div_nonneg)
  have nt: "\<not> c_div_traps (motion_x ev * 32768) sw" "\<not> c_div_traps (motion_y ev * 32768) sh"
    using assms by (simp_all add: c_div_traps_def)
  have abs: "sdl_handle_mouse_motion_event bm sw sh True ev =
           Some (vm_send_mouse_event (motion_x ev * 32768 div sw) (motion_y ev * 32768 div sh) 0
                   (mouse_buttons bm (motion_state ev)))"
    by (simp add: sdl_handle_mouse_motion_event_def sdl_send_mouse_event_def x32 y32 xd yd nt)
  have rel: "sdl_handle_mouse_motion_event bm sw sh False ev =
           Some (vm_send_mouse_event (motion_xrel ev) (motion_yrel ev) 0
                   (mouse_buttons bm (motion_state ev)))"
    by (simp add: sdl_handle_mouse_motion_event_def sdl_send_mouse_event_def)
  have ex: "motion_x ev = sw \<longrightarrow> motion_x ev * 32768 div sw = 32768"
    using assms(1) by simp
  have ey: "motion_y ev = sh \<longrightarrow> motion_y ev * 32768 div sh = 32768"
    using assms(2) by simp
  have ix: "motion_x ev < sw \<longrightarrow>
            0 \<le> motion_x ev * 32768 div sw \<and> motion_x ev * 32768 div sw \<le> 32767"
    using scaled_inside [OF assms(3)] by blast
  have iy: "motion_y ev < sh \<longrightarrow>
            0 \<le> motion_y ev * 32768 div sh \<and> motion_y ev * 32768 div sh \<le> 32767"
    using scaled_inside [OF assms(5)] by blast
  show ?thesis
    using abs rel ex ey ix iy by simp
qed

theorem pointer_scaling_witness:
  "sdl_handle_mouse_motion_event \<lparr>mask_left = 1, mask_right = 4, mask_middle = 2\<rparr> 640 480 True
     \<lparr>motion_state = 5, motion_x = 320, motion_y = 479, motion_xrel = - 3, motion_yrel = 7\<rparr> =
     Some (vm_send_mouse_event 16384 32699 0 3) \<and>
   sdl_handle_mouse_motion_event \<lparr>mask_left = 1, mask_right = 4, mask_middle = 2\<rparr> 640 480 False
     \<lparr>motion_state = 5, motion_x = 320, motion_y = 479, motion_xrel = - 3, motion_yrel = 7\<rparr> =
     Some (vm_send_mouse_event (- 3) 7 0 3)"
  using pointer_scaling [of 640 480
      "\<lparr>motion_state = 5, motion_x = 320, motion_y = 479, motion_xrel = - 3, motion_yrel = 7\<rparr>"
      "\<lparr>mask_left = 1, mask_right = 4, mask_middle = 2\<rparr>"]
  by (simp add: mouse_buttons_def)

text \<open>
  The claim as stated, for every pixel and every window size, fails where the product
  overflows: in a window 70000 wide the pixel \<open>x = 65536\<close> lies inside the window, the
  claim's formula gives 30678, and the driver sends \<open>-30678\<close>.
\<close>

theorem pointer_scaling_counterexample:
  "sdl_handle_mouse_motion_event \<lparr>mask_left = 1, mask_right = 4, mask_middle = 2\<rparr> 70000 480 True
     \<lparr>motion_state = 0, motion_x = 65536, motion_y = 0, motion_xrel = 0, motion_yrel = 0\<rparr> =
     Some (vm_send_mouse_event (- 30678) 0 0 0) \<and>
   (65536 :: int) * 32768 div 70000 = 30678"
  by (simp add: sdl_handle_mouse_motion_event_def sdl_send_mouse_event_def mouse_buttons_def
        int32_def c_div_def c_div_traps_def)


section \<open>Tone generator at frequency zero\<close>

text \<open>Bounds on rounded results.\<close>

lemma close_bound:
  fixes E e B :: real
  assumes "\<bar>E - e\<bar> \<le> (\<bar>e\<bar> + 1) / 2 ^ 50" and "\<bar>e\<bar> \<le> B"
  shows "\<bar>E - e\<bar> \<le> (B + 1) / 1000000000"
proof -
  have "(\<bar>e\<bar> + 1) / 2 ^ 50 \<le> (B + 1) / 1000000000"
    using assms(2) by (intro frac_le) simp_all
  with assms(1) show ?thesis by linarith
qed

lemma close_const:
  fixes E e :: real
  assumes "\<bar>E - e\<bar> \<le> 1 / 2 ^ 50"
  shows "\<bar>E - e\<bar> \<le> 1 / 1000000000"
proof -
  have "(1 :: real) / 2 ^ 50 \<le> 1 / 1000000000" by simp
  with assms show ?thesis by linarith
qed

lemma abs_step:
  fixes E e B D :: real
  assumes "\<bar>E - e\<bar> \<le> D" and "\<bar>e\<bar> \<le> B"
  shows "\<bar>E\<bar> \<le> B + D"
  using assms by linarith

lemma abs_chain:
  fixes E e f D1 D2 :: real
  assumes "\<bar>E - e\<bar> \<le> D1" and "\<bar>e - f\<bar> \<le> D2"
  shows "\<bar>E - f\<bar> \<le> D1 + D2"
  using assms by linarith

lemma abs_weaken:
  fixes a B C :: real
  assumes "\<bar>a\<bar> \<le> B" and "B \<le> C"
  shows "\<bar>a\<bar> \<le> C"
  using assms by linarith

lemma abs_mult_bound:
  fixes a b A B :: real
  assumes "\<bar>a\<bar> \<le> A" and "\<bar>b\<bar> \<le> B"
  shows "\<bar>a * b\<bar> \<le> A * B"
proof -
  have "\<bar>a\<bar> * \<bar>b\<bar> \<le> A * B"
    using assms by (intro mult_mono) simp_all
  then show ?thesis by (simp add: abs_mult)
qed

lemma product_close:
  fixes a a0 b b0 :: real
  assumes "\<bar>a - a0\<bar> \<le> da" and "\<bar>b\<bar> \<le> B" and "\<bar>a0\<bar> \<le> A0" and "\<bar>b - b0\<bar> \<le> db"
  shows "\<bar>a * b - a0 * b0\<bar> \<le> da * B + A0 * db"
proof -
  have "a * b - a0 * b0 = (a - a0) * b + a0 * (b - b0)"
    by (simp add: algebra_simps)
  moreover have "\<bar>(a - a0) * b + a0 * (b - b0)\<bar> \<le> \<bar>(a - a0) * b\<bar> + \<bar>a0 * (b - b0)\<bar>"
    by (rule abs_triangle_ineq)
  moreover have "\<bar>(a - a0) * b\<bar> \<le> da * B"
    using assms(1,2) by (rule abs_mult_bound)
  moreover have "\<bar>a0 * (b - b0)\<bar> \<le> A0 * db"
    using assms(3,4) by (rule abs_mult_bound)
  ultimately show ?thesis by linarith
qed

lemma abs_div_bound:
  fixes a r :: real
  assumes "1 \<le> \<bar>r\<bar>"
  shows "\<bar>a / r\<bar> \<le> \<bar>a\<bar>"
proof -
  have "\<bar>a\<bar> / \<bar>r\<bar> \<le> \<bar>a\<bar> / 1"
    using assms by (intro divide_left_mono) simp_all
  then show ?thesis by simp
qed

lemma dmul_close:
  assumes "double_like ops" and "\<bar>a * b\<bar> \<le> 2 ^ 64"
  shows "\<bar>dmul ops a b - a * b\<bar> \<le> (\<bar>a * b\<bar> + 1) / 2 ^ 50"
  using assms unfolding double_like_def by blast

lemma ddiv_close:
  assumes "double_like ops" and "b \<noteq> 0" and "\<bar>a / b\<bar> \<le> 2 ^ 64"
  shows "\<bar>ddiv ops a b - a / b\<bar> \<le> (\<bar>a / b\<bar> + 1) / 2 ^ 50"
  using assms unfolding double_like_def by blast

lemma dsin_close:
  assumes "double_like ops" and "\<bar>a\<bar> \<le> 2 ^ 40"
  shows "\<bar>dsin ops a - sin a\<bar> \<le> 1 / 1000000"
proof -
  have "\<bar>dsin ops a - sin a\<bar> \<le> 1 / 2 ^ 20"
    using assms unfolding double_like_def by blast
  then show ?thesis by (rule abs_weaken) simp
qed

lemma dadd_zero:
  assumes "double_like ops"
  shows "dadd ops a 0 = a"
  using assms unfolding double_like_def by blast

lemma M_PI_close:
  assumes "double_like ops"
  shows "\<bar>M_PI ops - pi\<bar> \<le> 1 / 1000000000"
proof -
  have "\<bar>M_PI ops - pi\<bar> \<le> 1 / 2 ^ 50"
    using assms unfolding double_like_def by blast
  then show ?thesis by (rule close_const)
qed

lemma M_PI_bounds:
  assumes "double_like ops"
  shows "\<bar>M_PI ops\<bar> \<le> 5"
proof -
  have "\<bar>pi\<bar> \<le> 4" using pi_less_4 pi_ge_zero by linarith
  with M_PI_close [OF assms] have "\<bar>M_PI ops\<bar> \<le> 4 + 1 / 1000000000"
    by (rule abs_step)
  then show ?thesis by (rule abs_weaken) simp
qed

lemma exact_ops_double_like: "double_like exact_ops"
  by (simp add: double_like_def exact_ops_def)


lemma trunc_small:
  fixes m :: real
  assumes "\<bar>m\<bar> < 1"
  shows "sint16_of_double m = Some 0"
proof -
  have "(if 0 \<le> m then \<lfloor>m\<rfloor> else \<lceil>m\<rceil>) = 0"
    using assms by (auto simp: floor_eq_iff ceiling_eq_iff)
  then show ?thesis by (simp add: sint16_of_double_def)
qed

lemma trunc_defined:
  fixes m :: real
  assumes "\<bar>m\<bar> \<le> 8001"
  shows "\<exists>k. sint16_of_double m = Some k"
proof -
  let ?t = "if 0 \<le> m then \<lfloor>m\<rfloor> else \<lceil>m\<rceil>"
  have "- 32768 \<le> ?t \<and> ?t \<le> 32767"
    using assms by (auto simp: le_floor_iff floor_le_iff ceiling_le_iff le_ceiling_iff)
  then show ?thesis by (simp add: sint16_of_double_def)
qed

lemma trunc_large:
  fixes m :: real
  assumes "3000 \<le> m" and "m \<le> 8001"
  shows "\<exists>k. sint16_of_double m = Some k \<and> 3000 \<le> k"
proof -
  have "3000 \<le> \<lfloor>m\<rfloor>" and "\<lfloor>m\<rfloor> \<le> 32767"
    using assms by (simp_all add: le_floor_iff floor_le_iff)
  with assms show ?thesis by (simp add: sint16_of_double_def)
qed

text \<open>The last two steps: the sine and the product with the amplitude.\<close>

lemma amplitude_times_sine:
  assumes dl: "double_like ops" and a: "\<bar>a\<bar> \<le> 2 ^ 40"
  shows "\<bar>dmul ops 8000 (dsin ops a) - 8000 * sin a\<bar> \<le> 1 / 100"
proof -
  let ?s = "dsin ops a"
  have s: "\<bar>?s - sin a\<bar> \<le> 1 / 1000000"
    using dl a by (rule dsin_close)
  have "\<bar>?s\<bar> \<le> 1 + 1 / 1000000"
    using s abs_sin_le_one by (rule abs_step)
  then have sb: "\<bar>?s\<bar> \<le> 2" by (rule abs_weaken) simp
  have k: "\<bar>8000 :: real\<bar> \<le> 8000" by simp
  have e: "\<bar>8000 * ?s\<bar> \<le> 8000 * 2"
    using k sb by (rule abs_mult_bound)
  then have "\<bar>8000 * ?s\<bar> \<le> 2 ^ 64" by (rule abs_weaken) simp
  then have "\<bar>dmul ops 8000 ?s - 8000 * ?s\<bar> \<le> (\<bar>8000 * ?s\<bar> + 1) / 2 ^ 50"
    using dl by (intro dmul_close)
  then have m: "\<bar>dmul ops 8000 ?s - 8000 * ?s\<bar> \<le> (8000 * 2 + 1) / 1000000000"
    using e by (rule close_bound)
  have z: "\<bar>(8000 :: real) - 8000\<bar> \<le> 0" by simp
  have "\<bar>8000 * ?s - 8000 * sin a\<bar> \<le> 0 * 2 + 8000 * (1 / 1000000)"
    using z sb k s by (rule product_close)
  with m have "\<bar>dmul ops 8000 ?s - 8000 * sin a\<bar>
      \<le> (8000 * 2 + 1) / 1000000000 + (0 * 2 + 8000 * (1 / 1000000))"
    by (rule abs_chain)
  then show ?thesis by (rule abs_weaken) simp
qed

text \<open>The angle: two products and a quotient.\<close>

lemma angle_close:
  assumes dl: "double_like ops" and v: "\<bar>v\<bar> \<le> 2 ^ 32" and r: "1 \<le> \<bar>r\<bar>"
  shows "\<bar>ddiv ops (dmul ops (dmul ops v 2) (M_PI ops)) r - v * 2 * pi / r\<bar>
           \<le> (\<bar>v\<bar> + 1) / 10000000 \<and>
         \<bar>ddiv ops (dmul ops (dmul ops v 2) (M_PI ops)) r\<bar> \<le> 2 ^ 40"
proof -
  let ?M = "M_PI ops"
  let ?p1 = "dmul ops v 2"
  let ?p2 = "dmul ops ?p1 ?M"
  let ?a = "ddiv ops ?p2 r"
  define n where "n = \<bar>v\<bar>"
  have n0: "0 \<le> n" and nb: "n \<le> 4294967296" and vn: "\<bar>v\<bar> \<le> n"
    using v by (simp_all add: n_def)
  have rz: "r \<noteq> 0" using r by auto
  have p64: "(2 :: real) ^ 64 = 18446744073709551616" by simp
  have p40: "(2 :: real) ^ 40 = 1099511627776" by simp
  have m: "\<bar>?M - pi\<bar> \<le> 1 / 1000000000" using dl by (rule M_PI_close)
  have mb: "\<bar>?M\<bar> \<le> 5" using dl by (rule M_PI_bounds)
  have two: "\<bar>2 :: real\<bar> \<le> 2" by simp
  \<comment> \<open>first product\<close>
  have e1: "\<bar>v * 2\<bar> \<le> n * 2" using vn two by (rule abs_mult_bound)
  moreover have "n * 2 \<le> 2 ^ 64" using nb n0 unfolding p64 by argo
  ultimately have "\<bar>v * 2\<bar> \<le> 2 ^ 64" by (rule abs_weaken)
  then have "\<bar>?p1 - v * 2\<bar> \<le> (\<bar>v * 2\<bar> + 1) / 2 ^ 50"
    using dl by (intro dmul_close)
  then have d1: "\<bar>?p1 - v * 2\<bar> \<le> (n * 2 + 1) / 1000000000"
    using e1 by (rule close_bound)
  have "\<bar>?p1\<bar> \<le> n * 2 + (n * 2 + 1) / 1000000000" using d1 e1 by (rule abs_step)
  moreover have "n * 2 + (n * 2 + 1) / 1000000000 \<le> 3 * n + 1" using n0 by argo
  ultimately have b1: "\<bar>?p1\<bar> \<le> 3 * n + 1" by (rule abs_weaken)
  \<comment> \<open>second product\<close>
  have e2: "\<bar>?p1 * ?M\<bar> \<le> (3 * n + 1) * 5" using b1 mb by (rule abs_mult_bound)
  moreover have "(3 * n + 1) * 5 \<le> 2 ^ 64" using nb n0 unfolding p64 by argo
  ultimately have "\<bar>?p1 * ?M\<bar> \<le> 2 ^ 64" by (rule abs_weaken)
  then have "\<bar>?p2 - ?p1 * ?M\<bar> \<le> (\<bar>?p1 * ?M\<bar> + 1) / 2 ^ 50"
    using dl by (intro dmul_close)
  then have d2: "\<bar>?p2 - ?p1 * ?M\<bar> \<le> ((3 * n + 1) * 5 + 1) / 1000000000"
    using e2 by (rule close_bound)
  have "\<bar>?p1 * ?M - v * 2 * pi\<bar> \<le> (n * 2 + 1) / 1000000000 * 5 + n * 2 * (1 / 1000000000)"
    using d1 mb e1 m by (rule product_close)
  with d2 have "\<bar>?p2 - v * 2 * pi\<bar> \<le> ((3 * n + 1) * 5 + 1) / 1000000000 +
      ((n * 2 + 1) / 1000000000 * 5 + n * 2 * (1 / 1000000000))"
    by (rule abs_chain)
  moreover have "((3 * n + 1) * 5 + 1) / 1000000000 +
      ((n * 2 + 1) / 1000000000 * 5 + n * 2 * (1 / 1000000000)) \<le> (30 * n + 12) / 1000000000"
    using n0 by argo
  ultimately have d2': "\<bar>?p2 - v * 2 * pi\<bar> \<le> (30 * n + 12) / 1000000000"
    by (rule abs_weaken)
  have pib: "\<bar>pi\<bar> \<le> 4" using pi_less_4 pi_ge_zero by linarith
  have ex: "\<bar>v * 2 * pi\<bar> \<le> n * 2 * 4"
    using e1 pib by (rule abs_mult_bound)
  have "\<bar>?p2\<bar> \<le> n * 2 * 4 + (30 * n + 12) / 1000000000" using d2' ex by (rule abs_step)
  moreover have "n * 2 * 4 + (30 * n + 12) / 1000000000 \<le> 9 * n + 1" using n0 by argo
  ultimately have b2: "\<bar>?p2\<bar> \<le> 9 * n + 1" by (rule abs_weaken)
  \<comment> \<open>quotient\<close>
  have e3: "\<bar>?p2 / r\<bar> \<le> 9 * n + 1"
    using abs_div_bound [OF r, of ?p2] b2 by (rule order_trans)
  moreover have "9 * n + 1 \<le> 2 ^ 64" using nb n0 unfolding p64 by argo
  ultimately have "\<bar>?p2 / r\<bar> \<le> 2 ^ 64" by (rule abs_weaken)
  then have "\<bar>?a - ?p2 / r\<bar> \<le> (\<bar>?p2 / r\<bar> + 1) / 2 ^ 50"
    using dl rz by (intro ddiv_close)
  then have d3: "\<bar>?a - ?p2 / r\<bar> \<le> (9 * n + 1 + 1) / 1000000000"
    using e3 by (rule close_bound)
  have "?p2 / r - v * 2 * pi / r = (?p2 - v * 2 * pi) / r"
    by (simp add: diff_divide_distrib)
  moreover have "\<bar>(?p2 - v * 2 * pi) / r\<bar> \<le> (30 * n + 12) / 1000000000"
    using abs_div_bound [OF r, of "?p2 - v * 2 * pi"] d2' by (rule order_trans)
  ultimately have d3': "\<bar>?p2 / r - v * 2 * pi / r\<bar> \<le> (30 * n + 12) / 1000000000"
    by simp
  have "\<bar>?a - v * 2 * pi / r\<bar> \<le> (9 * n + 1 + 1) / 1000000000 + (30 * n + 12) / 1000000000"
    using d3 d3' by (rule abs_chain)
  moreover have "(9 * n + 1 + 1) / 1000000000 + (30 * n + 12) / 1000000000 \<le> (n + 1) / 10000000"
    using n0 by argo
  ultimately have close: "\<bar>?a - v * 2 * pi / r\<bar> \<le> (n + 1) / 10000000"
    by (rule abs_weaken)
  have "\<bar>v * 2 * pi / r\<bar> \<le> n * 2 * 4"
    using abs_div_bound [OF r, of "v * 2 * pi"] ex by (rule order_trans)
  with close have "\<bar>?a\<bar> \<le> n * 2 * 4 + (n + 1) / 10000000" by (rule abs_step)
  moreover have "n * 2 * 4 + (n + 1) / 10000000 \<le> 2 ^ 40" using nb n0 unfolding p40 by argo
  ultimately have "\<bar>?a\<bar> \<le> 2 ^ 40" by (rule abs_weaken)
  with close show ?thesis by (simp add: n_def)
qed


text \<open>The stored sample, from the angle to the conversion.\<close>

lemma tone_sample_close:
  assumes dl: "double_like ops" and v: "\<bar>phase ts\<bar> \<le> 2 ^ 32" and r: "have_freq ts \<noteq> 0"
  shows "\<exists>a m. tone_sample ops ts = sint16_of_double m \<and>
           \<bar>a - phase ts * 2 * pi / real_of_int (have_freq ts)\<bar> \<le> (\<bar>phase ts\<bar> + 1) / 10000000 \<and>
           \<bar>m - 8000 * sin a\<bar> \<le> 1 / 100"
proof -
  let ?r = "real_of_int (have_freq ts)"
  let ?a = "ddiv ops (dmul ops (dmul ops (phase ts) 2) (M_PI ops)) ?r"
  let ?m = "dmul ops 8000 (dsin ops ?a)"
  have "1 \<le> \<bar>have_freq ts\<bar>" using r by simp
  then have r1: "1 \<le> \<bar>?r\<bar>" by linarith
  have a: "\<bar>?a - phase ts * 2 * pi / ?r\<bar> \<le> (\<bar>phase ts\<bar> + 1) / 10000000"
    and ab: "\<bar>?a\<bar> \<le> 2 ^ 40"
    using angle_close [OF dl v r1] by simp_all
  have m: "\<bar>?m - 8000 * sin ?a\<bar> \<le> 1 / 100"
    using dl ab by (rule amplitude_times_sine)
  have "tone_sample ops ts = sint16_of_double ?m"
    using r by (simp add: tone_sample_def AMPLITUDE_def)
  with a m show ?thesis by blast
qed

lemma tone_sample_defined:
  assumes "double_like ops" and "\<bar>phase ts\<bar> \<le> 2 ^ 32" and "have_freq ts \<noteq> 0"
  shows "\<exists>k. tone_sample ops ts = Some k"
proof -
  from tone_sample_close [OF assms] obtain a m where
    t: "tone_sample ops ts = sint16_of_double m" and m: "\<bar>m - 8000 * sin a\<bar> \<le> 1 / 100"
    by blast
  have k: "\<bar>8000 :: real\<bar> \<le> 8000" by simp
  have "\<bar>8000 * sin a\<bar> \<le> 8000 * 1"
    using k abs_sin_le_one by (rule abs_mult_bound)
  with m have "\<bar>m\<bar> \<le> 8000 * 1 + 1 / 100" by (rule abs_step)
  then have "\<bar>m\<bar> \<le> 8001" by (rule abs_weaken) simp
  then show ?thesis unfolding t by (rule trunc_defined)
qed

lemma tone_sample_phase_zero:
  assumes "double_like ops" and "phase ts = 0" and "have_freq ts \<noteq> 0"
  shows "tone_sample ops ts = Some 0"
proof -
  have v: "\<bar>phase ts\<bar> \<le> 2 ^ 32" using assms(2) by simp
  from tone_sample_close [OF assms(1) v assms(3)] obtain a m where
    t: "tone_sample ops ts = sint16_of_double m" and
    a: "\<bar>a - phase ts * 2 * pi / real_of_int (have_freq ts)\<bar> \<le> (\<bar>phase ts\<bar> + 1) / 10000000" and
    m: "\<bar>m - 8000 * sin a\<bar> \<le> 1 / 100"
    by blast
  have "\<bar>a\<bar> \<le> 1 / 10000000" using a assms(2) by simp
  with abs_sin_x_le_abs_x [of a] have s: "\<bar>sin a\<bar> \<le> 1 / 10000000" by (rule order_trans)
  have k: "\<bar>8000 :: real\<bar> \<le> 8000" by simp
  have "\<bar>8000 * sin a\<bar> \<le> 8000 * (1 / 10000000)"
    using k s by (rule abs_mult_bound)
  with m have "\<bar>m\<bar> \<le> 8000 * (1 / 10000000) + 1 / 100" by (rule abs_step)
  then have "\<bar>m\<bar> \<le> 1 / 2" by (rule abs_weaken) simp
  then have "\<bar>m\<bar> < 1" by linarith
  then show ?thesis unfolding t by (rule trunc_small)
qed

lemma sine_near_quarter:
  fixes a :: real
  assumes "\<bar>a - pi / 2\<bar> \<le> 1 / 2"
  shows "1 / 2 \<le> sin a"
proof -
  let ?d = "\<bar>pi / 2 - a\<bar>"
  have d: "?d \<le> 1 / 2" using assms by linarith
  have "1 / 2 \<le> pi / 3" using pi_ge_two by simp
  with d have "?d \<le> pi / 3" by linarith
  moreover have "pi / 3 \<le> pi" by simp
  ultimately have "cos (pi / 3) \<le> cos ?d"
    by (intro cos_monotone_0_pi_le) simp_all
  then have "1 / 2 \<le> cos (pi / 2 - a)" by (simp add: cos_60)
  then show ?thesis by (simp add: sin_cos_eq [of a])
qed

lemma tone_sample_quarter_period:
  assumes dl: "double_like ops"
  shows "\<exists>k. tone_sample ops \<lparr>beepfreq = f, phase = 11025, have_freq = 44100\<rparr> = Some k \<and> 3000 \<le> k"
proof -
  let ?ts = "\<lparr>beepfreq = f, phase = 11025, have_freq = 44100\<rparr>"
  have v: "\<bar>phase ?ts\<bar> \<le> 2 ^ 32" by simp
  have r: "have_freq ?ts \<noteq> 0" by simp
  from tone_sample_close [OF dl v r] obtain a m where
    t: "tone_sample ops ?ts = sint16_of_double m" and
    a: "\<bar>a - phase ?ts * 2 * pi / real_of_int (have_freq ?ts)\<bar> \<le> (\<bar>phase ?ts\<bar> + 1) / 10000000" and
    m: "\<bar>m - 8000 * sin a\<bar> \<le> 1 / 100"
    by blast
  have "phase ?ts * 2 * pi / real_of_int (have_freq ?ts) = pi / 2" by simp
  with a have "\<bar>a - pi / 2\<bar> \<le> (\<bar>phase ?ts\<bar> + 1) / 10000000" by simp
  then have "\<bar>a - pi / 2\<bar> \<le> 1 / 2" by (rule abs_weaken) simp
  then have lo: "1 / 2 \<le> sin a" by (rule sine_near_quarter)
  have hi: "sin a \<le> 1" by simp
  have "3000 \<le> m" and "m \<le> 8001" using m lo hi by argo+
  then have "\<exists>k. sint16_of_double m = Some k \<and> 3000 \<le> k" by (rule trunc_large)
  then show ?thesis by (simp add: t)
qed


text \<open>With frequency zero the loop stores one and the same sample.\<close>

lemma audio_loop_zero_freq:
  assumes "double_like ops" and "beepfreq ts = 0" and "tone_sample ops ts = Some k"
  shows "i \<le> len \<Longrightarrow> len \<le> length stream \<Longrightarrow>
         audio_loop ops len i stream ts =
           Some (take i stream @ replicate (len - i) k @ drop len stream, ts)"
proof (induction "len - i" arbitrary: i stream)
  case 0
  then show ?case by (subst audio_loop.simps) simp
next
  case (Suc d)
  then have lt: "i < len" by simp
  let ?st = "stream[i := k]"
  have same: "ts\<lparr>phase := dadd ops (phase ts) (real_of_int (beepfreq ts))\<rparr> = ts"
    using assms(1,2) by (simp add: dadd_zero)
  have ih: "audio_loop ops len (Suc i) ?st ts =
      Some (take (Suc i) ?st @ replicate (len - Suc i) k @ drop len ?st, ts)"
    using Suc.hyps(1) [of "Suc i" ?st] Suc.hyps(2) Suc.prems lt by simp
  have tk: "take (Suc i) ?st = take i stream @ [k]"
    using lt Suc.prems by (simp add: take_Suc_conv_app_nth)
  have dr: "drop len ?st = drop len stream"
    using lt by simp
  have rp: "replicate (len - i) k = k # replicate (len - Suc i) k"
    using lt by (simp add: Suc_diff_Suc flip: replicate_Suc)
  have "audio_loop ops len i stream ts = audio_loop ops len (Suc i) ?st ts"
    using lt assms(3) by (subst audio_loop.simps) (simp add: same)
  also have "\<dots> = Some (take i stream @ replicate (len - i) k @ drop len stream, ts)"
    unfolding ih tk dr rp by simp
  finally show ?case .
qed

lemma tone_sample_beep: "tone_sample ops (beep freq ts) = tone_sample ops ts"
  by (simp add: tone_sample_def beep_def)

lemma callback_zero_freq:
  assumes "double_like ops" and "tone_sample ops ts = Some k"
      and "length stream = byte_length div 2"
  shows "audio_callback ops stream byte_length (beep 0 ts) =
           Some (replicate (length stream) k, beep 0 ts)"
proof -
  have z: "beepfreq (beep 0 ts) = 0" by (simp add: beep_def)
  have k: "tone_sample ops (beep 0 ts) = Some k"
    using assms(2) by (simp add: tone_sample_beep)
  show ?thesis
    unfolding audio_callback_def
    using audio_loop_zero_freq [OF assms(1) z k, of 0 "length stream" stream] assms(3)
    by simp
qed

text \<open>
  Claim C6, as the code has it.  After \<open>beep(0)\<close> the next call of \<open>audio_callback\<close>
  fills the whole buffer with one and the same value, the sample that the arithmetic
  yields for the phase at the time of the call, and leaves the phase as it is.  That
  sample is defined for every phase of magnitude up to \<open>2 ^ 32\<close> when \<open>have.freq\<close>
  is not zero, and it is 0 when the phase is 0, as it is before any tone has played.
\<close>

theorem zero_tone_holds_sample:
  assumes "double_like ops" and "length stream = byte_length div 2"
  shows "(\<forall>k. tone_sample ops ts = Some k \<longrightarrow>
            audio_callback ops stream byte_length (beep 0 ts) =
              Some (replicate (length stream) k, beep 0 ts)) \<and>
         (\<bar>phase ts\<bar> \<le> 2 ^ 32 \<and> have_freq ts \<noteq> 0 \<longrightarrow> (\<exists>k. tone_sample ops ts = Some k)) \<and>
         (phase ts = 0 \<and> have_freq ts \<noteq> 0 \<longrightarrow>
            audio_callback ops stream byte_length (beep 0 ts) =
              Some (replicate (length stream) 0, beep 0 ts))"
proof (intro conjI allI impI)
  fix k
  assume "tone_sample ops ts = Some k"
  with assms(1) show "audio_callback ops stream byte_length (beep 0 ts) =
      Some (replicate (length stream) k, beep 0 ts)"
    using assms(2) by (rule callback_zero_freq)
next
  assume "\<bar>phase ts\<bar> \<le> 2 ^ 32 \<and> have_freq ts \<noteq> 0"
  then show "\<exists>k. tone_sample ops ts = Some k"
    using tone_sample_defined [OF assms(1)] by blast
next
  assume "phase ts = 0 \<and> have_freq ts \<noteq> 0"
  then have "tone_sample ops ts = Some 0"
    using tone_sample_phase_zero [OF assms(1)] by blast
  with assms(1) show "audio_callback ops stream byte_length (beep 0 ts) =
      Some (replicate (length stream) 0, beep 0 ts)"
    using assms(2) by (rule callback_zero_freq)
qed

theorem zero_tone_holds_sample_witness:
  "audio_callback exact_ops [5, 5, 5] 6 (beep 0 \<lparr>beepfreq = 440, phase = 0, have_freq = 44100\<rparr>) =
     Some ([0, 0, 0], \<lparr>beepfreq = 0, phase = 0, have_freq = 44100\<rparr>)"
proof -
  have len: "length [5, 5, 5 :: int] = 6 div 2" by simp
  show ?thesis
    using zero_tone_holds_sample [OF exact_ops_double_like len,
            of "\<lparr>beepfreq = 440, phase = 0, have_freq = 44100\<rparr>"]
    by (simp add: beep_def)
qed

text \<open>
  The claim as stated, silence for every phase, fails.  At phase 11025 with 44100
  samples per second, a quarter period, the exact sample is 8000; whatever arithmetic
  meets \<open>double_like\<close> stores at least 3000 in every element, never 0.
\<close>

theorem zero_tone_counterexample:
  "double_like exact_ops \<and>
   \<not> (\<exists>ops ts'. double_like ops \<and>
         audio_callback ops [1, 1] 4 (beep 0 \<lparr>beepfreq = 11025, phase = 11025, have_freq = 44100\<rparr>) =
           Some ([0, 0], ts'))"
proof (intro conjI notI)
  show "double_like exact_ops" by (rule exact_ops_double_like)
next
  let ?ts = "\<lparr>beepfreq = 11025, phase = 11025, have_freq = 44100\<rparr>"
  assume "\<exists>ops ts'. double_like ops \<and> audio_callback ops [1, 1] 4 (beep 0 ?ts) = Some ([0, 0], ts')"
  then obtain ops ts' where dl: "double_like ops"
    and z: "audio_callback ops [1, 1] 4 (beep 0 ?ts) = Some ([0, 0], ts')"
    by blast
  obtain k where k: "tone_sample ops ?ts = Some k" and big: "3000 \<le> k"
    using tone_sample_quarter_period [OF dl] by blast
  have len: "length [1, 1 :: int] = 4 div 2" by simp
  have "audio_callback ops [1, 1] 4 (beep 0 ?ts) = Some (replicate (length [1, 1 :: int]) k, beep 0 ?ts)"
    using dl k len by (rule callback_zero_freq)
  with z have "k = 0" by simp
  with big show False by simp
qed


section \<open>Framebuffer surface\<close>

lemma update_fb_surface_never_destroys:
  "SDL_DestroyTexture t \<notin> set (fst (sdl_update_fb_surface ans dev s)) \<and>
   SDL_DestroyRenderer r \<notin> set (fst (sdl_update_fb_surface ans dev s))"
  by (auto simp: sdl_update_fb_surface_def Let_def split: option.splits)

lemma update_fb_surface_returns:
  assumes "sdl_update_fb_surface ans dev s = (c, Returns s1)"
  shows "fb_surface s1 \<noteq> None \<and> fb_width s1 = fbdev_width dev \<and>
         fb_height s1 = fbdev_height dev \<and> fb_stride s1 = fbdev_stride dev \<and>
         key_pressed s1 = key_pressed s \<and> screen_width s1 = screen_width s \<and>
         screen_height s1 = screen_height s"
  using assms
  by (auto simp: sdl_update_fb_surface_def Let_def split: option.splits if_splits)

lemma update_fb_surface_outcome:
  "\<exists>c. sdl_update_fb_surface ans dev s = (c, Exits 1) \<or>
       (\<exists>s1. sdl_update_fb_surface ans dev s = (c, Returns s1))"
  by (auto simp: sdl_update_fb_surface_def Let_def split: option.splits)

text \<open>
  Claim C7 at a change of geometry from 640 by 480 to 800 by 600, with a surface (handle
  1), a renderer (handle 2) and a texture (handle 3) in place.  The driver frees the
  surface and creates a new surface, renderer and texture; the old renderer and texture
  are not destroyed, their handles are overwritten.
\<close>

theorem geometry_change_keeps_old_renderer_and_texture:
  "sdl_update_fb_surface
     \<lparr>new_surface = Some 4, new_renderer = Some 5, new_texture = Some 6\<rparr>
     \<lparr>fbdev_width = 800, fbdev_height = 600, fbdev_stride = 3200, fb_data = 8192\<rparr>
     \<lparr>fb_surface = Some \<lparr>surface_id = 1, pixels = 4096, pitch = 2560\<rparr>,
      screen_width = 640, screen_height = 480,
      fb_width = 640, fb_height = 480, fb_stride = 2560,
      key_pressed = [], texture = Some 3, renderer = Some 2\<rparr> =
   ([SDL_FreeSurface 1,
     SDL_CreateRGBSurfaceFrom 8192 800 600 32 3200 0x00ff0000 0x0000ff00 0x000000ff 0,
     SDL_CreateRenderer,
     SDL_CreateTextureFromSurface 5 4],
    Returns
     \<lparr>fb_surface = Some \<lparr>surface_id = 4, pixels = 8192, pitch = 3200\<rparr>,
      screen_width = 640, screen_height = 480,
      fb_width = 800, fb_height = 600, fb_stride = 3200,
      key_pressed = [], texture = Some 6, renderer = Some 5\<rparr>)"
  by (simp add: sdl_update_fb_surface_def)

theorem geometry_change_keeps_old_renderer_and_texture_witness:
  "SDL_DestroyRenderer 2 \<notin> set (fst (sdl_update_fb_surface
     \<lparr>new_surface = Some 4, new_renderer = Some 5, new_texture = Some 6\<rparr>
     \<lparr>fbdev_width = 800, fbdev_height = 600, fbdev_stride = 3200, fb_data = 8192\<rparr>
     \<lparr>fb_surface = Some \<lparr>surface_id = 1, pixels = 4096, pitch = 2560\<rparr>,
      screen_width = 640, screen_height = 480,
      fb_width = 640, fb_height = 480, fb_stride = 2560,
      key_pressed = [], texture = Some 3, renderer = Some 2\<rparr>)) \<and>
   SDL_DestroyTexture 3 \<notin> set (fst (sdl_update_fb_surface
     \<lparr>new_surface = Some 4, new_renderer = Some 5, new_texture = Some 6\<rparr>
     \<lparr>fbdev_width = 800, fbdev_height = 600, fbdev_stride = 3200, fb_data = 8192\<rparr>
     \<lparr>fb_surface = Some \<lparr>surface_id = 1, pixels = 4096, pitch = 2560\<rparr>,
      screen_width = 640, screen_height = 480,
      fb_width = 640, fb_height = 480, fb_stride = 2560,
      key_pressed = [], texture = Some 3, renderer = Some 2\<rparr>))"
  by (simp only: geometry_change_keeps_old_renderer_and_texture) simp

section \<open>Refresh\<close>

lemma fb_refresh_with_surface:
  assumes "fb_surface s \<noteq> None"
  shows "\<exists>cs. map (sdl_update s) dirty = map Returns cs \<and>
              fb_refresh s dirty = (concat cs, Returns ())"
proof (induction dirty)
  case Nil
  show ?case by simp
next
  case (Cons r rs)
  then obtain cs where cs: "map (sdl_update s) rs = map Returns cs"
      "fb_refresh s rs = (concat cs, Returns ())" by blast
  from assms obtain c where c: "sdl_update s r = Returns c"
    by (auto simp: sdl_update_def)
  have "map (sdl_update s) (r # rs) = map Returns (c # cs)"
    using c cs by simp
  moreover have "fb_refresh s (r # rs) = (concat (c # cs), Returns ())"
    using c cs by simp
  ultimately show ?case by blast
qed

lemma poll_events_drains:
  "sdl_poll_events km bm m queue s = (c, Returns (s', q)) \<Longrightarrow> q = []"
proof (induction queue arbitrary: s c)
  case Nil
  then show ?case by simp
next
  case (Cons ev queue)
  then show ?case
    by (auto split: if_splits option.splits prod.splits)
qed

lemma poll_events_append:
  "sdl_poll_events km bm m q1 s = (c, Returns (s', [])) \<Longrightarrow>
   sdl_poll_events km bm m (q1 @ q2) s =
     (c @ fst (sdl_poll_events km bm m q2 s'), snd (sdl_poll_events km bm m q2 s'))"
proof (induction q1 arbitrary: s c)
  case Nil
  then show ?case by simp
next
  case (Cons ev q1)
  then show ?case
    by (auto split: if_splits option.splits prod.splits)
qed

lemma wheel_deltas_append: "wheel_deltas (a @ b) = wheel_deltas a @ wheel_deltas b"
  by (induction a rule: wheel_deltas.induct) simp_all

lemma reset_loop_no_wheel:
  "wheel_deltas (map To_guest (fst (sdl_reset_keys_loop n i kp))) = []"
proof (induction n i kp rule: sdl_reset_keys_loop.induct)
  case (1 n i kp)
  show ?case
  proof (cases "i < n")
    case False
    then show ?thesis by (subst sdl_reset_keys_loop.simps) simp
  next
    case True
    with "1" show ?thesis
      by (cases "kp ! i") (subst sdl_reset_keys_loop.simps, simp add: Let_def)+
  qed
qed

lemma key_event_no_wheel:
  assumes "sdl_handle_key_event km ev kp = Some (out, kp')"
  shows "wheel_deltas (map To_guest out) = []"
proof -
  obtain keycode where kc: "sdl_get_keycode km (kev_scancode ev) = Some keycode"
    using assms by (auto simp: sdl_handle_key_event_def split: option.splits)
  show ?thesis
  proof (cases "keycode = 0 \<and> kev_type ev = SDL_KEYUP")
    case True
    with kc assms have "out = fst (sdl_reset_keys km kp)"
      by (auto simp: sdl_handle_key_event_def)
    then show ?thesis by (simp add: sdl_reset_keys_def reset_loop_no_wheel)
  next
    case False
    with kc assms show ?thesis
      by (auto simp: sdl_handle_key_event_def Let_def split: if_splits)
  qed
qed

lemma motion_event_wheel:
  assumes "sdl_handle_mouse_motion_event bm sw sh is_abs mev = Some g"
  shows "wheel_deltas [To_guest g] = [0]"
  using assms
  by (auto simp: sdl_handle_mouse_motion_event_def sdl_send_mouse_event_def Let_def
           split: if_splits)

lemma poll_events_wheel:
  "set (wheel_deltas (fst (sdl_poll_events km bm m queue s))) \<subseteq> {0}"
proof (induction queue arbitrary: s)
  case Nil
  show ?case by simp
next
  case (Cons ev queue)
  show ?case
  proof (cases "ev_type ev = SDL_KEYDOWN \<or> ev_type ev = SDL_KEYUP")
    case key: True
    show ?thesis
    proof (cases "sdl_handle_key_event km \<lparr>kev_type = ev_type ev, kev_scancode = key_scancode ev\<rparr>
                    (key_pressed s)")
      case None
      with key show ?thesis by simp
    next
      case (Some r)
      obtain out kp where r: "r = (out, kp)" by (cases r)
      obtain cs res where rec: "sdl_poll_events km bm m queue (s\<lparr>key_pressed := kp\<rparr>) = (cs, res)"
        by (cases "sdl_poll_events km bm m queue (s\<lparr>key_pressed := kp\<rparr>)")
      have "wheel_deltas (map To_guest out) = []"
        using Some r key_event_no_wheel by blast
      moreover have "set (wheel_deltas cs) \<subseteq> {0}"
        using Cons.IH [of "s\<lparr>key_pressed := kp\<rparr>"] rec by simp
      ultimately show ?thesis
        using key Some r rec by (simp add: wheel_deltas_append)
    qed
  next
    case nokey: False
    show ?thesis
    proof (cases "ev_type ev = SDL_MOUSEMOTION")
      case mot: True
      show ?thesis
      proof (cases "sdl_handle_mouse_motion_event bm (screen_width s) (screen_height s)
                      (vm_mouse_is_absolute m) (motion ev)")
        case None
        with mot show ?thesis by simp
      next
        case (Some g)
        obtain cs res where rec: "sdl_poll_events km bm m queue s = (cs, res)"
          by (cases "sdl_poll_events km bm m queue s")
        have "wheel_deltas [To_guest g] = [0]"
          using Some by (rule motion_event_wheel)
        then have "wheel_deltas (To_guest g # cs) = 0 # wheel_deltas cs"
          using wheel_deltas_append [of "[To_guest g]" cs] by simp
        moreover have "set (wheel_deltas cs) \<subseteq> {0}"
          using Cons.IH [of s] rec by simp
        ultimately show ?thesis
          using nokey mot Some rec by simp
      qed
    next
      case False
      with nokey Cons.IH [of s] show ?thesis by simp
    qed
  qed
qed

lemma update_fb_surface_no_wheel: "wheel_deltas (fst (sdl_update_fb_surface ans dev s)) = []"
  by (simp add: sdl_update_fb_surface_def Let_def wheel_deltas_append split: option.splits)

lemma fb_refresh_no_wheel: "wheel_deltas (fst (fb_refresh s dirty)) = []"
proof (induction dirty)
  case Nil
  show ?case by simp
next
  case (Cons r rs)
  then show ?case
    by (auto simp: sdl_update_def wheel_deltas_append split: option.splits prod.splits)
qed

lemma refresh_wheel:
  "set (wheel_deltas (fst (sdl_refresh km bm ans dirty m queue s))) \<subseteq> {0}"
proof (cases "fb_dev m")
  case None
  then show ?thesis by (simp add: sdl_refresh_def)
next
  case (Some dev)
  obtain c1 r1 where u: "sdl_update_fb_surface ans dev s = (c1, r1)"
    by (cases "sdl_update_fb_surface ans dev s")
  have w1: "wheel_deltas c1 = []"
    using update_fb_surface_no_wheel [of ans dev s] u by simp
  show ?thesis
  proof (cases r1)
    case (Returns s1)
    obtain c2 r2 where f: "fb_refresh s1 dirty = (c2, r2)"
      by (cases "fb_refresh s1 dirty")
    have w2: "wheel_deltas c2 = []"
      using fb_refresh_no_wheel [of s1 dirty] f by simp
    obtain c3 r3 where p: "sdl_poll_events km bm m queue s1 = (c3, r3)"
      by (cases "sdl_poll_events km bm m queue s1")
    have w3: "set (wheel_deltas c3) \<subseteq> {0}"
      using poll_events_wheel [of km bm m queue s1] p by simp
    show ?thesis
      using Some u Returns f p w1 w2 w3
      by (cases r2) (simp_all add: sdl_refresh_def wheel_deltas_append)
  next
    case (Exits n)
    with Some u w1 show ?thesis by (simp add: sdl_refresh_def)
  next
    case Faults
    with Some u w1 show ?thesis by (simp add: sdl_refresh_def)
  qed
qed

text \<open>
  Claim C8.  Without a framebuffer device \<open>sdl_refresh\<close> makes no call and leaves the
  driver state and the event queue as they are.  With a device, once
  \<open>sdl_update_fb_surface\<close> has returned (the surface exists and the cached geometry is
  the device's), the calls of the tick are, in this order: those of
  \<open>sdl_update_fb_surface\<close>, those of \<open>sdl_update\<close> for each reported rectangle in
  turn, those of the event loop; and when the tick returns the queue is empty.
\<close>

theorem refresh_tick_order:
  "(fb_dev m = None \<longrightarrow> sdl_refresh km bm ans dirty m queue s = ([], Returns (s, queue))) \<and>
   (\<forall>dev c1 s1.
      fb_dev m = Some dev \<and> sdl_update_fb_surface ans dev s = (c1, Returns s1) \<longrightarrow>
        fb_surface s1 \<noteq> None \<and> fb_width s1 = fbdev_width dev \<and>
        fb_height s1 = fbdev_height dev \<and> fb_stride s1 = fbdev_stride dev \<and>
        (\<exists>cs c3 res.
           map (sdl_update s1) dirty = map Returns cs \<and>
           sdl_poll_events km bm m queue s1 = (c3, res) \<and>
           sdl_refresh km bm ans dirty m queue s = (c1 @ concat cs @ c3, res) \<and>
           (\<forall>s' q. res = Returns (s', q) \<longrightarrow> q = [])))"
proof (intro conjI allI impI)
  assume "fb_dev m = None"
  then show "sdl_refresh km bm ans dirty m queue s = ([], Returns (s, queue))"
    by (simp add: sdl_refresh_def)
next
  fix dev c1 s1
  assume a: "fb_dev m = Some dev \<and> sdl_update_fb_surface ans dev s = (c1, Returns s1)"
  then have u: "sdl_update_fb_surface ans dev s = (c1, Returns s1)" by simp
  from update_fb_surface_returns [OF u]
  show "fb_surface s1 \<noteq> None" and "fb_width s1 = fbdev_width dev"
    and "fb_height s1 = fbdev_height dev" and "fb_stride s1 = fbdev_stride dev"
    by simp_all
  then obtain cs where cs: "map (sdl_update s1) dirty = map Returns cs"
      "fb_refresh s1 dirty = (concat cs, Returns ())"
    using fb_refresh_with_surface [of s1 dirty] by blast
  obtain c3 res where p: "sdl_poll_events km bm m queue s1 = (c3, res)"
    by (cases "sdl_poll_events km bm m queue s1")
  have r: "sdl_refresh km bm ans dirty m queue s = (c1 @ concat cs @ c3, res)"
    using a cs(2) p by (simp add: sdl_refresh_def)
  have d: "\<forall>s' q. res = Returns (s', q) \<longrightarrow> q = []"
    using p poll_events_drains by blast
  show "\<exists>cs c3 res.
           map (sdl_update s1) dirty = map Returns cs \<and>
           sdl_poll_events km bm m queue s1 = (c3, res) \<and>
           sdl_refresh km bm ans dirty m queue s = (c1 @ concat cs @ c3, res) \<and>
           (\<forall>s' q. res = Returns (s', q) \<longrightarrow> q = [])"
    using cs(1) p r d by blast
qed

theorem refresh_tick_order_witness:
  "sdl_refresh ex_keymap ex_masks ex_answers [ex_rect] (ex_machine\<lparr>fb_dev := None\<rparr>)
     [ex_key SDL_KEYDOWN 1, ex_motion 320 240] ex_state =
     ([], Returns (ex_state, [ex_key SDL_KEYDOWN 1, ex_motion 320 240])) \<and>
   sdl_refresh ex_keymap ex_masks ex_answers [ex_rect] ex_machine
     [ex_key SDL_KEYDOWN 1, ex_motion 320 240] ex_state =
     ([SDL_CreateRGBSurfaceFrom 4096 640 480 32 2560 0x00ff0000 0x0000ff00 0x000000ff 0,
       SDL_CreateRenderer,
       SDL_CreateTextureFromSurface 2 1,
       SDL_UpdateTexture (Some 3) ex_rect 45056 2560,
       SDL_RenderCopy (Some 2) (Some 3),
       SDL_RenderPresent (Some 2),
       To_guest (vm_send_key_event True 2),
       To_guest (vm_send_mouse_event 16384 16384 0 0)],
      Returns (ex_ready\<lparr>key_pressed := [False, False, True, False, False, False, False, False]\<rparr>, []))"
proof -
  let ?q = "[ex_key SDL_KEYDOWN 1, ex_motion 320 240]"
  let ?c1 = "[SDL_CreateRGBSurfaceFrom 4096 640 480 32 2560 0x00ff0000 0x0000ff00 0x000000ff 0,
              SDL_CreateRenderer, SDL_CreateTextureFromSurface 2 1]"
  let ?c2 = "[SDL_UpdateTexture (Some 3) ex_rect 45056 2560, SDL_RenderCopy (Some 2) (Some 3),
              SDL_RenderPresent (Some 2)]"
  have idle: "fb_dev (ex_machine\<lparr>fb_dev := None\<rparr>) = None" by simp
  have dev: "fb_dev ex_machine = Some ex_device" by (simp add: ex_machine_def)
  have upd: "sdl_update_fb_surface ex_answers ex_device ex_state = (?c1, Returns ex_ready)"
    by (simp add: sdl_update_fb_surface_def ex_answers_def ex_device_def ex_state_def ex_ready_def)
  have pres: "map (sdl_update ex_ready) [ex_rect] = map Returns [?c2]"
    by (simp add: sdl_update_def ex_ready_def ex_rect_def)
  have poll: "sdl_poll_events ex_keymap ex_masks ex_machine ?q ex_ready =
      ([To_guest (vm_send_key_event True 2), To_guest (vm_send_mouse_event 16384 16384 0 0)],
       Returns (ex_ready\<lparr>key_pressed := [False, False, True, False, False, False, False, False]\<rparr>, []))"
    by (simp add: ex_key_def ex_motion_def ex_event_def ex_keymap_def ex_masks_def ex_machine_def
          ex_ready_def ex_state_def sdl_handle_key_event_def sdl_get_keycode_def keymap_at_def
          NR_KEYS_def sdl_handle_mouse_motion_event_def sdl_send_mouse_event_def mouse_buttons_def
          int32_def c_div_def c_div_traps_def)
  from refresh_tick_order [of "ex_machine\<lparr>fb_dev := None\<rparr>" ex_keymap ex_masks ex_answers
        "[ex_rect]" ?q ex_state] idle
  have first: "sdl_refresh ex_keymap ex_masks ex_answers [ex_rect] (ex_machine\<lparr>fb_dev := None\<rparr>)
     ?q ex_state = ([], Returns (ex_state, ?q))"
    by blast
  from refresh_tick_order [of ex_machine ex_keymap ex_masks ex_answers "[ex_rect]" ?q ex_state]
       dev upd
  obtain cs c3 res where
    r: "map (sdl_update ex_ready) [ex_rect] = map Returns cs"
       "sdl_poll_events ex_keymap ex_masks ex_machine ?q ex_ready = (c3, res)"
       "sdl_refresh ex_keymap ex_masks ex_answers [ex_rect] ex_machine ?q ex_state =
          (?c1 @ concat cs @ c3, res)"
    by blast
  from r(1) pres have "cs = [?c2]" by auto
  with r(2,3) poll first show ?thesis by simp
qed

text \<open>
  Claim C9.  A quit event ends the process with status 0 at once: the events queued
  behind it are not handled, and the calls made are those of the events in front of it.
  An exit carries no driver state, so nothing runs after it.
\<close>

theorem quit_exits_at_once:
  assumes "ev_type ev = SDL_QUIT"
  shows "sdl_poll_events km bm m (ev # rest) s = ([], Exits 0) \<and>
         (\<forall>before c s'.
            sdl_poll_events km bm m before s = (c, Returns (s', [])) \<longrightarrow>
              sdl_poll_events km bm m (before @ ev # rest) s = (c, Exits 0))"
proof -
  have q: "sdl_poll_events km bm m (ev # rest) s0 = ([], Exits 0)" for s0
    using assms by simp
  have "sdl_poll_events km bm m (before @ ev # rest) s = (c, Exits 0)"
    if "sdl_poll_events km bm m before s = (c, Returns (s', []))" for before c s'
    using poll_events_append [OF that, of "ev # rest"] q [of s'] by simp
  with q show ?thesis by blast
qed


theorem quit_exits_at_once_witness:
  "sdl_poll_events ex_keymap ex_masks ex_machine
     [ex_key SDL_KEYDOWN 1, ex_event SDL_QUIT, ex_key SDL_KEYDOWN 2] ex_ready =
     ([To_guest (vm_send_key_event True 2)], Exits 0)"
proof -
  have q: "ev_type (ex_event SDL_QUIT) = SDL_QUIT" by (simp add: ex_event_def)
  have before: "sdl_poll_events ex_keymap ex_masks ex_machine [ex_key SDL_KEYDOWN 1] ex_ready =
      ([To_guest (vm_send_key_event True 2)],
       Returns (ex_ready\<lparr>key_pressed := [False, False, True, False, False, False, False, False]\<rparr>, []))"
    by (simp add: ex_key_def ex_event_def ex_keymap_def ex_ready_def ex_state_def
          sdl_handle_key_event_def sdl_get_keycode_def keymap_at_def NR_KEYS_def)
  from quit_exits_at_once [OF q, of ex_keymap ex_masks ex_machine "[ex_key SDL_KEYDOWN 2]" ex_ready]
       before
  have "sdl_poll_events ex_keymap ex_masks ex_machine
          ([ex_key SDL_KEYDOWN 1] @ ex_event SDL_QUIT # [ex_key SDL_KEYDOWN 2]) ex_ready =
        ([To_guest (vm_send_key_event True 2)], Exits 0)"
    by blast
  then show ?thesis by simp
qed

text \<open>
  Claim C10.  Every mouse event that a tick sends to the machine has wheel delta 0, and
  a host mouse-wheel, button-press or button-release event is dropped: the loop goes on
  with the next event.
\<close>

theorem no_wheel_delta_reaches_guest:
  "set (wheel_deltas (fst (sdl_refresh km bm ans dirty m queue s))) \<subseteq> {0} \<and>
   (ev_type ev = SDL_MOUSEWHEEL \<or> ev_type ev = SDL_MOUSEBUTTONDOWN \<or> ev_type ev = SDL_MOUSEBUTTONUP \<longrightarrow>
      sdl_poll_events km bm m (ev # queue) s = sdl_poll_events km bm m queue s)"
  using refresh_wheel [of km bm ans dirty m queue s] by auto


theorem no_wheel_delta_reaches_guest_witness:
  "sdl_poll_events ex_keymap ex_masks ex_machine [ex_event SDL_MOUSEWHEEL, ex_motion 320 240] ex_ready =
     ([To_guest (vm_send_mouse_event 16384 16384 0 0)], Returns (ex_ready, []))"
proof -
  have w: "ev_type (ex_event SDL_MOUSEWHEEL) = SDL_MOUSEWHEEL" by (simp add: ex_event_def)
  have mot: "sdl_poll_events ex_keymap ex_masks ex_machine [ex_motion 320 240] ex_ready =
      ([To_guest (vm_send_mouse_event 16384 16384 0 0)], Returns (ex_ready, []))"
    by (simp add: ex_motion_def ex_event_def ex_masks_def ex_machine_def ex_ready_def ex_state_def
          sdl_handle_mouse_motion_event_def sdl_send_mouse_event_def mouse_buttons_def
          int32_def c_div_def c_div_traps_def)
  from no_wheel_delta_reaches_guest [of ex_keymap ex_masks ex_answers "[]" ex_machine
         "[ex_motion 320 240]" ex_ready "ex_event SDL_MOUSEWHEEL"] w
  have "sdl_poll_events ex_keymap ex_masks ex_machine [ex_event SDL_MOUSEWHEEL, ex_motion 320 240] ex_ready =
        sdl_poll_events ex_keymap ex_masks ex_machine [ex_motion 320 240] ex_ready"
    by blast
  with mot show ?thesis by simp
qed


end
